theory Spec2Isabelle
  imports Main "HOL-Library.Word"
begin

section \<open>Tegu reservation control plane\<close>

text \<open>
  A shallow embedding of the parts of Tegu that the checked properties are about:
  the pledge window (gizmos, pledge_window), the path (gizmos/path.go), the
  reservation inventory and its push loop (managers, res_mgr), the agent
  dispatcher (managers, agent), the steering flow-mod builder
  (managers/fq_mgr_steer.go) and the VM request block (managers/net_req.go).

  Go's \<open>int64\<close> is a 64 bit word compared as a two's complement number
  (\<open><s\<close>, \<open>\<le>s\<close>); \<open>+\<close> and \<open>-\<close> wrap. The wall clock \<open>time.Now().Unix()\<close> is
  an input: every function that reads it takes the reading as its argument \<open>now\<close>.
  A nil pointer is \<open>None\<close>. An error value built by \<open>fmt.Errorf\<close> is a
  constructor of \<open>error\<close> that keeps the values the message is formatted from.
\<close>

type_synonym int64 = "64 word"

datatype error =
    Bad_expiry int64 int64
  | Reservation_exists string
  | Cannot_find string
  | Not_authorised string
  | Nw_error string

subsection \<open>pledge\_window\<close>

record pledge_window =
  commence :: int64
  expiry :: int64

definition mk_pledge_window :: "int64 \<Rightarrow> int64 \<Rightarrow> int64 \<Rightarrow> error + pledge_window" where
  "mk_pledge_window now commence0 expiry0 =
     (let commence1 = (if commence0 <s now then now else commence0)
      in if expiry0 <s commence1
         then Inl (Bad_expiry now expiry0)
         else Inr \<lparr>commence = commence1, expiry = expiry0\<rparr>)"

definition clone :: "pledge_window option \<Rightarrow> pledge_window option" where
  "clone p = (case p of None \<Rightarrow> None
              | Some w \<Rightarrow> Some \<lparr>commence = commence w, expiry = expiry w\<rparr>)"

definition state_str :: "int64 \<Rightarrow> pledge_window option \<Rightarrow> string \<times> string \<times> int64" where
  "state_str now p =
     (case p of None \<Rightarrow> (''EXPIRED'', ''no window'', 0)
      | Some w \<Rightarrow>
          if expiry w \<le>s now then (''EXPIRED'', ''ago'', 0)
          else if now <s commence w then (''PENDING'', ''from now'', commence w - now)
          else (''ACTIVE'', ''remaining'', expiry w - now))"

definition extend_by :: "int64 \<Rightarrow> int64 \<Rightarrow> pledge_window option \<Rightarrow> pledge_window option" where
  "extend_by now n p =
     (case p of None \<Rightarrow> None
      | Some w \<Rightarrow>
          let w1 = w\<lparr>expiry := expiry w + n\<rparr>
          in if n <s 0 \<and> expiry w1 <s now then Some (w1\<lparr>expiry := now\<rparr>) else Some w1)"

definition set_expiry_to :: "int64 \<Rightarrow> pledge_window \<Rightarrow> pledge_window" where
  "set_expiry_to new_time w = w\<lparr>expiry := new_time\<rparr>"

definition is_expired :: "int64 \<Rightarrow> pledge_window option \<Rightarrow> bool" where
  "is_expired now p = (case p of None \<Rightarrow> True | Some w \<Rightarrow> expiry w \<le>s now)"

definition is_pending :: "int64 \<Rightarrow> pledge_window option \<Rightarrow> bool" where
  "is_pending now p = (case p of None \<Rightarrow> False | Some w \<Rightarrow> now <s commence w)"

definition is_active :: "int64 \<Rightarrow> pledge_window option \<Rightarrow> bool" where
  "is_active now p =
     (case p of None \<Rightarrow> False | Some w \<Rightarrow> commence w <s now \<and> now <s expiry w)"


definition get_values :: "pledge_window option \<Rightarrow> int64 \<times> int64" where
  "get_values p = (case p of None \<Rightarrow> (0, 0) | Some w \<Rightarrow> (commence w, expiry w))"

definition concluded_recently :: "int64 \<Rightarrow> int64 \<Rightarrow> pledge_window option \<Rightarrow> bool" where
  "concluded_recently now window p =
     (case p of None \<Rightarrow> True
      | Some w \<Rightarrow> expiry w <s now \<and> now - window \<le>s expiry w)"

definition commenced_recently :: "int64 \<Rightarrow> int64 \<Rightarrow> pledge_window option \<Rightarrow> bool" where
  "commenced_recently now window p =
     (case p of None \<Rightarrow> False
      | Some w \<Rightarrow> now - window \<le>s commence w \<and> commence w \<le>s now \<and> now <s expiry w)"

definition is_extinct :: "int64 \<Rightarrow> int64 \<Rightarrow> pledge_window option \<Rightarrow> bool" where
  "is_extinct now window p =
     (case p of None \<Rightarrow> False | Some w \<Rightarrow> expiry w \<le>s now - window)"

subsection \<open>Net\_vm (managers/net\_req.go)\<close>

text \<open>
  Every field of the block is a Go \<open>*string\<close>: \<open>None\<close> is the nil pointer. The
  obsolete gateway map holds nil-able pointers as well.
\<close>

record Net_vm =
  name :: "string option"
  vm_id :: "string option"
  ip4 :: "string option"
  ip6 :: "string option"
  phost :: "string option"
  mac :: "string option"
  gw :: "string option"
  fip :: "string option"
  gwmap :: "string \<rightharpoonup> string option"

definition Mk_netreq_vm ::
  "string option \<Rightarrow> string option \<Rightarrow> string option \<Rightarrow> string option \<Rightarrow> string option \<Rightarrow>
   string option \<Rightarrow> string option \<Rightarrow> string option \<Rightarrow> (string \<rightharpoonup> string option) \<Rightarrow> Net_vm" where
  "Mk_netreq_vm name0 id0 ip40 ip60 phost0 mac0 gw0 fip0 gwmap0 =
     (let name1 = (case name0 of Some n \<Rightarrow> Some n
                   | None \<Rightarrow> (case ip40 of Some a \<Rightarrow> Some a | None \<Rightarrow> Some ''unnamed''))
      in \<lparr>name = name1, vm_id = id0, ip4 = ip40, ip6 = ip60, phost = phost0, mac = mac0,
          gw = gw0, fip = fip0, gwmap = gwmap0\<rparr>)"

text \<open>
  \<open>Get_values\<close> returns eight values by position. The signature names the result
  positions \<open>(name, id, ip4, ip6, gw, phost, mac, fip)\<close>; a nil receiver returns them
  unset (all nil), otherwise the return statement lists the expressions
  \<open>vm.name, vm.id, vm.ip4, vm.ip6, vm.phost, vm.gw, vm.mac, vm.fip\<close>.
\<close>

type_synonym vm_values =
  "string option \<times> string option \<times> string option \<times> string option \<times>
   string option \<times> string option \<times> string option \<times> string option"

definition Get_values :: "Net_vm option \<Rightarrow> vm_values" where
  "Get_values vm =
     (case vm of
        None \<Rightarrow> (None, None, None, None, None, None, None, None)
      | Some v \<Rightarrow> (name v, vm_id v, ip4 v, ip6 v, phost v, gw v, mac v, fip v))"

text \<open>The result positions under the names the signature declares for them.\<close>

definition ret_name :: "vm_values \<Rightarrow> string option" where
  "ret_name r = (case r of (name', id', ip4', ip6', gw', phost', mac', fip') \<Rightarrow> name')"

definition ret_id :: "vm_values \<Rightarrow> string option" where
  "ret_id r = (case r of (name', id', ip4', ip6', gw', phost', mac', fip') \<Rightarrow> id')"

definition ret_ip4 :: "vm_values \<Rightarrow> string option" where
  "ret_ip4 r = (case r of (name', id', ip4', ip6', gw', phost', mac', fip') \<Rightarrow> ip4')"

definition ret_ip6 :: "vm_values \<Rightarrow> string option" where
  "ret_ip6 r = (case r of (name', id', ip4', ip6', gw', phost', mac', fip') \<Rightarrow> ip6')"

definition ret_gw :: "vm_values \<Rightarrow> string option" where
  "ret_gw r = (case r of (name', id', ip4', ip6', gw', phost', mac', fip') \<Rightarrow> gw')"

definition ret_phost :: "vm_values \<Rightarrow> string option" where
  "ret_phost r = (case r of (name', id', ip4', ip6', gw', phost', mac', fip') \<Rightarrow> phost')"

definition ret_mac :: "vm_values \<Rightarrow> string option" where
  "ret_mac r = (case r of (name', id', ip4', ip6', gw', phost', mac', fip') \<Rightarrow> mac')"

definition ret_fip :: "vm_values \<Rightarrow> string option" where
  "ret_fip r = (case r of (name', id', ip4', ip6', gw', phost', mac', fip') \<Rightarrow> fip')"

subsection \<open>Path (gizmos/path.go)\<close>

text \<open>
  Links, switches and hosts are objects of files that are not part of this
  development; a path holds pointers to them, here addresses. The slices of a
  path are kept by value: \<open>Mk_path\<close> and the growing branch of \<open>Add_link\<close> and
  \<open>Add_switch\<close> allocate them with \<open>make\<close>, and no function hands the slice of
  one path to another. Go's \<open>int\<close> counters are integers. An index expression
  outside the slice, which panics at run time, is \<open>None\<close>.
\<close>

type_synonym link_ref = nat
type_synonym switch_ref = nat
type_synonym host_ref = nat

record Path =
  links :: "link_ref option list"
  lidx :: int
  switches :: "switch_ref option list"
  sidx :: int
  h1 :: "host_ref option"
  h2 :: "host_ref option"
  endpts :: "link_ref option list"
  extip :: "string option"
  is_reverse :: bool

definition slice_get :: "'a list \<Rightarrow> int \<Rightarrow> 'a option" where
  "slice_get xs i = (if 0 \<le> i \<and> i < int (length xs) then Some (xs ! nat i) else None)"

definition Mk_path :: "host_ref option \<Rightarrow> host_ref option \<Rightarrow> Path" where
  "Mk_path a b =
     \<lparr>links = replicate 32 None, lidx = 0, switches = replicate 64 None, sidx = 0,
      h1 = a, h2 = b, endpts = replicate 2 None, extip = None, is_reverse = False\<rparr>"

definition Set_reverse :: "bool \<Rightarrow> Path \<Rightarrow> Path" where
  "Set_reverse state p = p\<lparr>is_reverse := state\<rparr>"

definition Add_link :: "Path \<Rightarrow> link_ref option \<Rightarrow> Path option" where
  "Add_link p l =
     (case l of
        None \<Rightarrow> Some p
      | Some _ \<Rightarrow>
          let ls = (if int (length (links p)) \<le> lidx p
                    then links p @ replicate (nat (lidx p + 32) - length (links p)) None
                    else links p)
          in if lidx p < 0 then None
             else Some (p\<lparr>links := ls[nat (lidx p) := l], lidx := lidx p + 1\<rparr>))"

definition Add_switch :: "Path \<Rightarrow> switch_ref option \<Rightarrow> Path option" where
  "Add_switch p s =
     (let ss = (if int (length (switches p)) \<le> sidx p
                then switches p @ replicate (nat (sidx p + 64) - length (switches p)) None
                else switches p)
      in if sidx p < 0 then None
         else Some (p\<lparr>switches := ss[nat (sidx p) := s], sidx := sidx p + 1\<rparr>))"

text \<open>The two iterations of \<open>Invert\<close>, each counting down from the last used slot.\<close>

function invert_links :: "Path \<Rightarrow> int \<Rightarrow> Path \<Rightarrow> Path option" where
  "invert_links p i ip =
     (if 0 \<le> i
      then (case slice_get (links p) i of
              None \<Rightarrow> None
            | Some l \<Rightarrow> (case Add_link ip l of
                           None \<Rightarrow> None
                         | Some ip' \<Rightarrow> invert_links p (i - 1) ip'))
      else Some ip)"
  by pat_completeness auto
termination
  by (relation "measure (\<lambda>(p, i, ip). nat (i + 1))") auto

function invert_switches :: "Path \<Rightarrow> int \<Rightarrow> Path \<Rightarrow> Path option" where
  "invert_switches p i ip =
     (if 0 \<le> i
      then (case slice_get (switches p) i of
              None \<Rightarrow> None
            | Some s \<Rightarrow> (case Add_switch ip s of
                           None \<Rightarrow> None
                         | Some ip' \<Rightarrow> invert_switches p (i - 1) ip'))
      else Some ip)"
  by pat_completeness auto
termination
  by (relation "measure (\<lambda>(p, i, ip). nat (i + 1))") auto

definition Invert_path :: "Path \<Rightarrow> Path option" where
  "Invert_path p =
     (case invert_links p (lidx p - 1) (Mk_path (h1 p) (h2 p)) of
        None \<Rightarrow> None
      | Some ip1 \<Rightarrow>
          (case invert_switches p (sidx p - 1) ip1 of
             None \<Rightarrow> None
           | Some ip2 \<Rightarrow> Some (ip2\<lparr>is_reverse := \<not> is_reverse p\<rparr>)))"

text \<open>
  Paths are handled through pointers. The store holds the path objects, an
  address is an index into it, and an allocation appends. \<open>Invert\<close> reads the
  receiver, allocates the new path and writes to that one only.
\<close>

type_synonym path_store = "Path list"

definition Invert :: "path_store \<Rightarrow> nat \<Rightarrow> (nat \<times> path_store) option" where
  "Invert st a =
     (if a < length st
      then (case Invert_path (st ! a) of
              None \<Rightarrow> None
            | Some ip \<Rightarrow> Some (length st, st @ [ip]))
      else None)"

text \<open>The part of the slices that is in use, and the shape \<open>Add_link\<close> keeps.\<close>

definition path_links :: "Path \<Rightarrow> link_ref option list" where
  "path_links p = take (nat (lidx p)) (links p)"

definition path_switches :: "Path \<Rightarrow> switch_ref option list" where
  "path_switches p = take (nat (sidx p)) (switches p)"

definition path_ok :: "Path \<Rightarrow> bool" where
  "path_ok p \<longleftrightarrow>
     0 \<le> lidx p \<and> lidx p \<le> int (length (links p)) \<and> None \<notin> set (path_links p) \<and>
     0 \<le> sidx p \<and> sidx p \<le> int (length (switches p))"

subsection \<open>Agent dispatcher (managers, agent)\<close>

text \<open>
  The connection manager is an external package; what the dispatcher does with
  it is to write bytes to a session id, so a send yields the list of
  \<open>(session id, message)\<close> writes. Ranging over the map of agents visits the
  keys in an order the run time picks: the functions that range over it take
  that order as \<open>ks\<close>. \<open>jcache\<close> is the input buffered for the agent.
\<close>

record agent =
  agent_id :: string
  jcache :: string

record agent_data =
  agents :: "string \<rightharpoonup> agent"
  agent_list :: "agent list"
  aidx :: int

datatype send_req = REQ_SENDALL | REQ_SENDLONG | REQ_SENDSHORT

definition new_agent_data :: agent_data where
  "new_agent_data = \<lparr>agents = Map.empty, agent_list = [], aidx = 0\<rparr>"

definition build_list :: "string list \<Rightarrow> agent_data \<Rightarrow> agent_data" where
  "build_list ks ad =
     (let al = List.map_filter (agents ad) ks;
          i = int (length al)
      in ad\<lparr>agent_list := al, aidx := (if i \<le> aidx ad then 0 else aidx ad)\<rparr>)"

definition Mk_agent :: "string list \<Rightarrow> string \<Rightarrow> agent_data \<Rightarrow> agent \<times> agent_data" where
  "Mk_agent ks aid ad =
     (let na = \<lparr>agent_id = aid, jcache = []\<rparr>
      in (na, build_list ks (ad\<lparr>agents := (agents ad)(aid \<mapsto> na)\<rparr>)))"

definition send2one :: "agent_data \<Rightarrow> string \<Rightarrow> (agent_data \<times> (string \<times> string) list) option" where
  "send2one ad msg =
     (let l = int (card (dom (agents ad)))
      in if l \<le> 0 then Some (ad, [])
         else (case slice_get (agent_list ad) (aidx ad) of
                 None \<Rightarrow> None
               | Some a \<Rightarrow>
                   let aidx1 = aidx ad + 1;
                       aidx2 = (if l \<le> aidx1 then (if 1 < l then 1 else 0) else aidx1)
                   in Some (ad\<lparr>aidx := aidx2\<rparr>, [(agent_id a, msg)])))"

definition send2lra :: "agent_data \<Rightarrow> string \<Rightarrow> (agent_data \<times> (string \<times> string) list) option" where
  "send2lra ad msg =
     (let l = int (card (dom (agents ad)))
      in if l \<le> 0 then Some (ad, [])
         else (case slice_get (agent_list ad) 0 of
                 None \<Rightarrow> None
               | Some a \<Rightarrow> Some (ad, [(agent_id a, msg)])))"

definition send2all :: "string list \<Rightarrow> agent_data \<Rightarrow> string \<Rightarrow> agent_data \<times> (string \<times> string) list" where
  "send2all ks ad msg = (ad, map (\<lambda>k. (k, msg)) ks)"

text \<open>
  The cases of the request switch of \<open>Agent_mgr\<close> that pass a request's data on
  to agents; a request without data sends nothing.
\<close>

definition Agent_mgr_send ::
  "string list \<Rightarrow> send_req \<Rightarrow> string option \<Rightarrow> agent_data \<Rightarrow>
   (agent_data \<times> (string \<times> string) list) option" where
  "Agent_mgr_send ks ty req_data ad =
     (case req_data of
        None \<Rightarrow> Some (ad, [])
      | Some msg \<Rightarrow>
          (case ty of
             REQ_SENDALL \<Rightarrow> Some (send2all ks ad msg)
           | REQ_SENDLONG \<Rightarrow> send2one ad msg
           | REQ_SENDSHORT \<Rightarrow> send2one ad msg))"

subsection \<open>Steering flow-mods (managers/fq\_mgr\_steer.go)\<close>

text \<open>
  \<open>fmt.Sprintf\<close> with \<open>%d\<close> prints an integer in decimal, with a leading minus
  sign when it is negative; \<open>strings.Split(s, " ")\<close> cuts at every blank and
  yields one piece more than there are blanks.
\<close>

definition digit_char :: "nat \<Rightarrow> char" where
  "digit_char d = ''0123456789'' ! d"

function show_nat :: "nat \<Rightarrow> string" where
  "show_nat n = (if n < 10 then [digit_char n] else show_nat (n div 10) @ [digit_char (n mod 10)])"
  by pat_completeness auto
termination
  by (relation "measure (\<lambda>n. n)") auto

declare show_nat.simps [simp del]

definition show_int :: "int \<Rightarrow> string" where
  "show_int i = (if i < 0 then CHR ''-'' # show_nat (nat (- i)) else show_nat (nat i))"

fun split_blank :: "string \<Rightarrow> string list" where
  "split_blank [] = [] # []"
| "split_blank (c # cs) =
     (if c = CHR '' '' then [] # split_blank cs
      else (case split_blank cs of [] \<Rightarrow> [c] # [] | w # ws \<Rightarrow> (c # w) # ws))"

definition dquote :: char where
  "dquote = CHR 0x22"

definition quoted :: "string \<Rightarrow> string" where
  "quoted s = dquote # s @ [dquote]"

text \<open>
  Modelled from the spec: the declarations of \<open>Fq_req\<close> and of its match and
  action parameter blocks are not in the sources. The fields are the ones
  \<open>send_stfmod_agent\<close> reads and its comment lists; the ones printed with \<open>%d\<close>
  and compared with numbers are integers, the ones tested against nil and
  dereferenced are string pointers.
\<close>

record Fq_parms =
  Meta :: "string option"
  Swport :: int
  Smac :: "string option"
  Dmac :: "string option"
  Ip1 :: "string option"
  Ip2 :: "string option"
  Tpsport :: int
  Tpdport :: int
  Resub :: "string option"

record Fq_req =
  Pri :: int
  Expiry :: int
  Table :: int
  Swid :: "string option"
  Lbmac :: "string option"
  Nxt_mac :: "string option"
  Protocol :: "string option"
  Match :: Fq_parms
  Action :: Fq_parms

definition table_opt :: "Fq_req \<Rightarrow> string" where
  "table_opt data = (if 0 < Table data then ''-T '' @ show_int (Table data) @ '' '' else [])"

definition match_meta :: "Fq_req \<Rightarrow> string" where
  "match_meta data =
     (case Meta (Match data) of
        None \<Rightarrow> []
      | Some v \<Rightarrow> if v \<noteq> [] then '' -m '' @ v else [])"

definition match_inport :: "Fq_req \<Rightarrow> string" where
  "match_inport data =
     (if 0 \<le> Swport (Match data) then '' -i '' @ show_int (Swport (Match data))
      else if Swport (Match data) = - 128
           then (case Lbmac data of Some lbmac \<Rightarrow> '' -i '' @ lbmac | None \<Rightarrow> [])
           else [])"

text \<open>
  The MAC to match on: the one given wins; otherwise the IP address, when there
  is one, is translated, and a failing translation abandons the request (the
  outer \<open>None\<close>).
\<close>

definition match_mac :: "string option \<Rightarrow> string option \<Rightarrow> (string \<rightharpoonup> string) \<Rightarrow> string option option" where
  "match_mac given ip ip2mac =
     (case given of
        Some m \<Rightarrow> Some (Some m)
      | None \<Rightarrow> (case ip of
                   None \<Rightarrow> Some None
                 | Some a \<Rightarrow> (case ip2mac a of None \<Rightarrow> None | Some m \<Rightarrow> Some (Some m))))"

definition match_ports :: "Fq_req \<Rightarrow> string" where
  "match_ports data =
     (case Protocol data of
        None \<Rightarrow> []
      | Some proto \<Rightarrow>
          (if 0 \<le> Tpsport (Match data)
           then '' -p '' @ proto @ '':'' @ show_int (Tpsport (Match data)) else [])
          @ (if 0 \<le> Tpdport (Match data)
             then '' -P '' @ proto @ '':'' @ show_int (Tpdport (Match data)) else []))"

definition match_rest :: "Fq_req \<Rightarrow> (string \<rightharpoonup> string) \<Rightarrow> string option" where
  "match_rest data ip2mac =
     (case match_mac (Smac (Match data)) (Ip1 (Match data)) ip2mac of
        None \<Rightarrow> None
      | Some smac \<Rightarrow>
          (case match_mac (Dmac (Match data)) (Ip2 (Match data)) ip2mac of
             None \<Rightarrow> None
           | Some dmac \<Rightarrow>
               Some ((case smac of None \<Rightarrow> [] | Some m \<Rightarrow> '' -s '' @ m)
                     @ (case dmac of None \<Rightarrow> [] | Some m \<Rightarrow> '' -d '' @ m)
                     @ match_ports data)))"

definition match_opts :: "Fq_req \<Rightarrow> (string \<rightharpoonup> string) \<Rightarrow> string option" where
  "match_opts data ip2mac =
     (case match_rest data ip2mac of
        None \<Rightarrow> None
      | Some r \<Rightarrow> Some (''--match'' @ match_meta data @ match_inport data @ r))"

definition action_opts :: "Fq_req \<Rightarrow> string" where
  "action_opts data =
     ''--action ''
     @ ((case Dmac (Action data) of None \<Rightarrow> [] | Some m \<Rightarrow> '' -d '' @ m)
        @ (case Smac (Action data) of None \<Rightarrow> [] | Some m \<Rightarrow> '' -s '' @ m)
        @ (case Nxt_mac data of None \<Rightarrow> [] | Some m \<Rightarrow> '' -d '' @ m)
        @ (case Meta (Action data) of
             None \<Rightarrow> []
           | Some v \<Rightarrow> if v \<noteq> [] then '' -m '' @ v else [])
        @ (case Resub (Action data) of
             None \<Rightarrow> []
           | Some r \<Rightarrow> concat (map (\<lambda>tok. '' -R ,'' @ tok) (split_blank r))))
     @ '' '' @ ''-N''"

definition base_json :: string where
  "base_json =
     ''{ '' @ quoted ''ctype'' @ '': '' @ quoted ''action_list'' @ '', '' @ quoted ''actions''
     @ '': [ { '' @ quoted ''atype'' @ '': '' @ quoted ''flowmod'' @ '', '' @ quoted ''fdata''
     @ '': [ ''"

definition fmod_json_all :: "string \<Rightarrow> string \<Rightarrow> int \<Rightarrow> int \<Rightarrow> string \<Rightarrow> string \<Rightarrow> string" where
  "fmod_json_all host table expiry' pri mo ao =
     base_json
     @ quoted (''-h '' @ host @ '' '' @ table @ '' -t '' @ show_int expiry' @ '' -p '' @ show_int pri
               @ '' '' @ mo @ '' '' @ ao @ '' add 0xe5d br-int'')
     @ '' ] } ] }''"

definition fmod_json_one :: "string \<Rightarrow> int \<Rightarrow> int \<Rightarrow> string \<Rightarrow> string \<Rightarrow> string" where
  "fmod_json_one swid expiry' pri mo ao =
     base_json
     @ quoted (''-h '' @ swid @ '' -t '' @ show_int expiry' @ '' -p '' @ show_int pri
               @ '' '' @ mo @ '' '' @ ao @ '' add 0xe5d br-int'')
     @ '' ] } ] }''"

text \<open>
  The result is the request block as the function leaves it (the priority is
  written back into it) and the JSON texts sent, each as one short request, to
  the agent manager. \<open>None\<close> is the panic of dereferencing a nil host list.
\<close>

definition send_stfmod_agent ::
  "Fq_req \<Rightarrow> (string \<rightharpoonup> string) \<Rightarrow> string option \<Rightarrow> (Fq_req \<times> string list) option" where
  "send_stfmod_agent data0 ip2mac hlist =
     (let data = (if Pri data0 \<le> 0 then data0\<lparr>Pri := 100\<rparr> else data0)
      in case match_opts data ip2mac of
           None \<Rightarrow> Some (data, [])
         | Some mo \<Rightarrow>
             (case Swid data of
                None \<Rightarrow>
                  (case hlist of
                     None \<Rightarrow> None
                   | Some hl \<Rightarrow>
                       Some (data, map (\<lambda>host. fmod_json_all host (table_opt data) (Expiry data)
                                                  (Pri data) mo (action_opts data))
                                       (split_blank hl)))
              | Some swid \<Rightarrow>
                  Some (data, [fmod_json_one swid (Expiry data) (Pri data) mo (action_opts data)])))"

subsection \<open>Queue information along a path (gizmos/path.go)\<close>
















subsection \<open>Pledges and the reservation inventory (managers, res\_mgr)\<close>

text \<open>
  Modelled from the spec: the pledge (gizmos, pledge) is not in the sources.
  A pledge has a unique id, the cookie of its owner, a window, a pushed and a
  paused flag, the two hosts with their optional transport ports, the
  bandwidth amounts, a DSCP code and the list of paths; a cookie is valid for a
  pledge when it matches the owner's cookie. The tests on time are those of the
  pledge's window. Names, ids and cookies reach the inventory as pointers to
  strings that are dereferenced without a test: they are strings here.
\<close>

record Pledge =
  pledge_id :: string
  usrkey :: string
  window :: pledge_window
  pushed :: bool
  paused :: bool
  host1 :: string
  host2 :: string
  tpport1 :: int
  tpport2 :: int
  bandw_in :: int64
  bandw_out :: int64
  dscp :: int
  path_list :: "Path list"

definition Get_id :: "Pledge \<Rightarrow> string" where
  "Get_id p = pledge_id p"

definition Is_valid_cookie :: "Pledge \<Rightarrow> string \<Rightarrow> bool" where
  "Is_valid_cookie p c \<longleftrightarrow> c = usrkey p"




definition Reset_pushed :: "Pledge \<Rightarrow> Pledge" where
  "Reset_pushed p = p\<lparr>pushed := False\<rparr>"

definition Set_expiry :: "int64 \<Rightarrow> Pledge \<Rightarrow> Pledge" where
  "Set_expiry v p = p\<lparr>window := set_expiry_to v (window p)\<rparr>"



definition Is_extinct :: "int64 \<Rightarrow> int64 \<Rightarrow> Pledge \<Rightarrow> bool" where
  "Is_extinct now w p = is_extinct now w (Some (window p))"




text \<open>
  The inventory maps a reservation name to its pledge; a name that is absent
  and a name held with a nil pledge both read as nil. The super cookie is a
  process wide variable that \<open>Res_manager\<close> sets once: the operations take it as
  \<open>super_cookie\<close>. An operation returns the inventory as it leaves it.
\<close>

record Inventory =
  cache :: "string \<rightharpoonup> Pledge"

definition Mk_inventory :: Inventory where
  "Mk_inventory = \<lparr>cache = Map.empty\<rparr>"

definition Add_res :: "Inventory \<Rightarrow> Pledge \<Rightarrow> error option \<times> Inventory" where
  "Add_res invt p =
     (case cache invt (Get_id p) of
        Some _ \<Rightarrow> (Some (Reservation_exists (Get_id p)), invt)
      | None \<Rightarrow> (None, invt\<lparr>cache := (cache invt)(Get_id p \<mapsto> p)\<rparr>))"

definition Get_res ::
  "string \<Rightarrow> Inventory \<Rightarrow> string \<Rightarrow> string \<Rightarrow> (Pledge option \<times> error option) \<times> Inventory" where
  "Get_res super_cookie invt nm cookie =
     (case cache invt nm of
        None \<Rightarrow> ((None, Some (Cannot_find nm)), invt)
      | Some p \<Rightarrow>
          if \<not> Is_valid_cookie p cookie \<and> cookie \<noteq> super_cookie
          then ((None, Some (Not_authorised nm)), invt)
          else ((Some p, None), invt))"

text \<open>
  \<open>Del_res\<close> talks to the network manager and then writes to the pledge it
  found, which is the object held in the inventory. What it does, in the order
  in which it does it, is recorded as a list of events. The network manager's
  handling of a delete request is the function \<open>nw_del\<close> of the pledge as it is
  when the request is sent; the reply is waited for, so a network manager that
  never answers would keep \<open>Del_res\<close> from returning: \<open>nw_del\<close> is taken to
  answer.
\<close>

datatype event =
    Send_nw_del Pledge
  | Recv_nw_reply "error option"
  | Write_expiry string int64
  | Write_pushed string bool

definition Del_res ::
  "(Pledge \<Rightarrow> error option) \<Rightarrow> string \<Rightarrow> int64 \<Rightarrow> Inventory \<Rightarrow> string \<Rightarrow> string \<Rightarrow>
   error option \<times> Inventory \<times> event list" where
  "Del_res nw_del super_cookie now invt nm cookie =
     (case fst (Get_res super_cookie invt nm cookie) of
        (Some p, state0) \<Rightarrow>
          (let ev1 = [Send_nw_del p];
               reply = nw_del p;
               ev2 = ev1 @ [Recv_nw_reply reply];
               p1 = Set_expiry (now + 15) p;
               ev3 = ev2 @ [Write_expiry nm (now + 15)];
               p2 = Reset_pushed p1;
               ev4 = ev3 @ [Write_pushed nm False]
           in (reply, invt\<lparr>cache := (cache invt)(nm \<mapsto> p2)\<rparr>, ev4))
      | (None, state0) \<Rightarrow> (state0, invt, []))"

subsection \<open>Pushing reservations (managers, res\_mgr)\<close>















text \<open>
  Reading the inventory as a set of pledges: \<open>keyed\<close> says that every pledge
  is held under its own id, and \<open>is_write\<close> picks the events that change a
  pledge.
\<close>

definition keyed :: "Inventory \<Rightarrow> bool" where
  "keyed invt \<longleftrightarrow> (\<forall>k q. cache invt k = Some q \<longrightarrow> Get_id q = k)"

fun is_write :: "event \<Rightarrow> bool" where
  "is_write (Write_expiry _ _) = True"
| "is_write (Write_pushed _ _) = True"
| "is_write _ = False"

section \<open>Properties\<close>

subsection \<open>Pledge window: classification and construction\<close>

lemma is_pending_iff:
  "is_pending now (Some w) \<longleftrightarrow> sint now < sint (commence w)"
  by (simp add: is_pending_def word_sless_alt)

lemma is_expired_iff:
  "is_expired now (Some w) \<longleftrightarrow> sint (expiry w) \<le> sint now"
  by (simp add: is_expired_def word_sle_eq)

lemma is_active_iff:
  "is_active now (Some w) \<longleftrightarrow> sint (commence w) < sint now \<and> sint now < sint (expiry w)"
  by (simp add: is_active_def word_sless_alt)

lemma is_extinct_iff:
  "is_extinct now secs (Some w) \<longleftrightarrow> sint (expiry w) \<le> sint (now - secs)"
  by (simp add: is_extinct_def word_sle_eq)

lemma state_str_active_iff:
  "fst (state_str now (Some w)) = ''ACTIVE'' \<longleftrightarrow>
     sint (commence w) \<le> sint now \<and> sint now < sint (expiry w)"
  by (auto simp add: state_str_def word_sless_alt word_sle_eq)

text \<open>
  C4. The classification of a window at time \<open>now\<close>: pending when
  \<open>now < commence\<close>, active when \<open>commence \<le> now < expiry\<close>, expired when
  \<open>expiry \<le> now\<close>. At the instant \<open>now = commence\<close> the window
  \<open>{100, 200}\<close> is reported as not pending, not expired and also not active by
  \<open>is_active\<close>, which compares \<open>commence < now\<close>; \<open>state_str\<close> names the
  same window ACTIVE at the same instant.
\<close>

theorem is_active_at_commence:
  "\<not> is_active 100 (Some \<lparr>commence = 100, expiry = 200\<rparr>)
   \<and> \<not> is_pending 100 (Some \<lparr>commence = 100, expiry = 200\<rparr>)
   \<and> \<not> is_expired 100 (Some \<lparr>commence = 100, expiry = 200\<rparr>)
   \<and> fst (state_str 100 (Some \<lparr>commence = 100, expiry = 200\<rparr>)) = ''ACTIVE''"
  by (simp add: is_active_def is_pending_def is_expired_def state_str_def)

lemma mk_pledge_window_clamps_and_rejects:
  "(mk_pledge_window now c x = Inl (Bad_expiry now x) \<longleftrightarrow> sint x < max (sint c) (sint now))
   \<and> (max (sint c) (sint now) \<le> sint x \<longrightarrow>
        mk_pledge_window now c x =
          Inr \<lparr>commence = (if sint c < sint now then now else c), expiry = x\<rparr>)"
  by (auto simp add: mk_pledge_window_def word_sless_alt Let_def)

text \<open>
  C5. A commence time earlier than \<open>now\<close> is clamped to \<open>now\<close>, and after the
  clamp a window whose expiry is not later than its commence time is to be
  rejected. With \<open>now = 100\<close> the request \<open>{50, 100}\<close> is clamped to \<open>{100, 100}\<close>
  and a window is produced, as the constructor tests \<open>expiry < commence\<close>:
  that window is expired in the same second for \<open>is_expired\<close> and \<open>state_str\<close>
  and is never active. The request \<open>{150, 150}\<close>, which lies in the future and
  is empty, is accepted as well; \<open>{50, 99}\<close> is rejected.
\<close>

theorem mk_pledge_window_accepts_expired_window:
  "mk_pledge_window 100 50 100 = Inr \<lparr>commence = 100, expiry = 100\<rparr>
   \<and> expiry \<lparr>commence = 100, expiry = 100\<rparr> \<le>s commence \<lparr>commence = 100, expiry = 100\<rparr>
   \<and> is_expired 100 (Some \<lparr>commence = 100, expiry = 100\<rparr>)
   \<and> fst (state_str 100 (Some \<lparr>commence = 100, expiry = 100\<rparr>)) = ''EXPIRED''
   \<and> \<not> is_active 100 (Some \<lparr>commence = 100, expiry = 100\<rparr>)
   \<and> mk_pledge_window 100 150 150 = Inr \<lparr>commence = 150, expiry = 150\<rparr>
   \<and> mk_pledge_window 100 50 99 = Inl (Bad_expiry 100 99)"
  by (simp add: mk_pledge_window_def is_expired_def state_str_def is_active_def)

lemma zero_length_window_never_active:
  "expiry w = commence w \<Longrightarrow> \<not> is_active now (Some w)"
  by (simp add: is_active_def word_sless_alt)

subsection \<open>Net\_vm: the order of the values returned\<close>

text \<open>
  C9. For a non-nil block \<open>Get_values\<close> returns the stored fields in the order
  \<open>(name, id, ip4, ip6, phost, gw, mac, fip)\<close>: the position that the signature
  names \<open>gw\<close> carries the physical host and the position named \<open>phost\<close> carries
  the gateway; the other six positions carry the field of their name.
\<close>

theorem Get_values_swaps_gw_phost:
  "Get_values (Some vm) = (name vm, vm_id vm, ip4 vm, ip6 vm, phost vm, gw vm, mac vm, fip vm)
   \<and> ret_gw (Get_values (Some vm)) = phost vm
   \<and> ret_phost (Get_values (Some vm)) = gw vm
   \<and> ret_name (Get_values (Some vm)) = name vm
   \<and> ret_id (Get_values (Some vm)) = vm_id vm
   \<and> ret_ip4 (Get_values (Some vm)) = ip4 vm
   \<and> ret_ip6 (Get_values (Some vm)) = ip6 vm
   \<and> ret_mac (Get_values (Some vm)) = mac vm
   \<and> ret_fip (Get_values (Some vm)) = fip vm"
  by (simp add: Get_values_def ret_gw_def ret_phost_def ret_name_def ret_id_def ret_ip4_def
        ret_ip6_def ret_mac_def ret_fip_def)

lemma Get_values_Mk_netreq_vm:
  "ret_gw (Get_values (Some (Mk_netreq_vm n i a4 a6 ph m g f gm))) = ph
   \<and> ret_phost (Get_values (Some (Mk_netreq_vm n i a4 a6 ph m g f gm))) = g"
  by (simp add: Get_values_def ret_gw_def ret_phost_def Mk_netreq_vm_def)

subsection \<open>Path: inversion\<close>

lemma path_links_Add_link:
  assumes "0 \<le> lidx p" "lidx p \<le> int (length (links p))"
  shows "\<exists>p'. Add_link p (Some l) = Some p' \<and> path_links p' = path_links p @ [Some l]
     \<and> lidx p' = lidx p + 1 \<and> lidx p' \<le> int (length (links p'))
     \<and> switches p' = switches p \<and> sidx p' = sidx p \<and> h1 p' = h1 p \<and> h2 p' = h2 p
     \<and> endpts p' = endpts p \<and> extip p' = extip p \<and> is_reverse p' = is_reverse p"
proof -
  let ?n = "nat (lidx p)"
  let ?ls = "(if int (length (links p)) \<le> lidx p
                    then links p @ replicate (nat (lidx p + 32) - length (links p)) None
                    else links p)"
  have n: "?n \<le> length (links p)" using assms by linarith
  have len: "?n < length ?ls" using assms by auto
  have tk: "take ?n ?ls = take ?n (links p)" using n by auto
  have "take (Suc ?n) (?ls[?n := Some l]) = take ?n ?ls @ [Some l]"
    using len by (simp add: take_Suc_conv_app_nth)
  moreover have "nat (lidx p + 1) = Suc ?n" using assms by linarith
  ultimately show ?thesis
    using assms len tk by (simp add: Add_link_def path_links_def Let_def del: replicate_Suc) 
qed

lemma path_switches_Add_switch:
  assumes "0 \<le> sidx p" "sidx p \<le> int (length (switches p))"
  shows "\<exists>p'. Add_switch p s = Some p' \<and> path_switches p' = path_switches p @ [s]
     \<and> sidx p' = sidx p + 1 \<and> sidx p' \<le> int (length (switches p'))
     \<and> links p' = links p \<and> lidx p' = lidx p \<and> h1 p' = h1 p \<and> h2 p' = h2 p
     \<and> endpts p' = endpts p \<and> extip p' = extip p \<and> is_reverse p' = is_reverse p"
proof -
  let ?n = "nat (sidx p)"
  let ?ss = "(if int (length (switches p)) \<le> sidx p
                then switches p @ replicate (nat (sidx p + 64) - length (switches p)) None
                else switches p)"
  have n: "?n \<le> length (switches p)" using assms by linarith
  have len: "?n < length ?ss" using assms by auto
  have tk: "take ?n ?ss = take ?n (switches p)" using n by auto
  have "take (Suc ?n) (?ss[?n := s]) = take ?n ?ss @ [s]"
    using len by (simp add: take_Suc_conv_app_nth)
  moreover have "nat (sidx p + 1) = Suc ?n" using assms by linarith
  ultimately show ?thesis
    using assms len tk by (simp add: Add_switch_def path_switches_def Let_def del: replicate_Suc) 
qed

lemma invert_links_rev:
  assumes "n \<le> length (links p)" "None \<notin> set (take n (links p))"
    and "0 \<le> lidx ip" "lidx ip \<le> int (length (links ip))"
  shows "\<exists>ip'. invert_links p (int n - 1) ip = Some ip'
     \<and> path_links ip' = path_links ip @ rev (take n (links p))
     \<and> lidx ip' = lidx ip + int n \<and> lidx ip' \<le> int (length (links ip'))
     \<and> switches ip' = switches ip \<and> sidx ip' = sidx ip \<and> h1 ip' = h1 ip \<and> h2 ip' = h2 ip
     \<and> endpts ip' = endpts ip \<and> extip ip' = extip ip \<and> is_reverse ip' = is_reverse ip"
  using assms
proof (induction n arbitrary: ip)
  case 0
  then show ?case by simp
next
  case (Suc n)
  have n: "n < length (links p)" using Suc.prems(1) by simp
  have tk: "take (Suc n) (links p) = take n (links p) @ [links p ! n]"
    using n by (simp add: take_Suc_conv_app_nth)
  from Suc.prems(2) tk obtain l where l: "links p ! n = Some l"
    by (cases "links p ! n") auto
  from path_links_Add_link [OF Suc.prems(3) Suc.prems(4), of l]
  obtain ip1 where a: "Add_link ip (Some l) = Some ip1"
    and b: "path_links ip1 = path_links ip @ [Some l]"
    and c: "lidx ip1 = lidx ip + 1" "lidx ip1 \<le> int (length (links ip1))"
    and d: "switches ip1 = switches ip" "sidx ip1 = sidx ip" "h1 ip1 = h1 ip" "h2 ip1 = h2 ip"
           "endpts ip1 = endpts ip" "extip ip1 = extip ip" "is_reverse ip1 = is_reverse ip"
    by blast
  have p1: "n \<le> length (links p)" using n by simp
  have p2: "None \<notin> set (take n (links p))" using Suc.prems(2) tk by simp
  have p3: "0 \<le> lidx ip1" using c Suc.prems(3) by simp
  from Suc.IH [OF p1 p2 p3 c(2)]
  obtain ip' where r: "invert_links p (int n - 1) ip1 = Some ip'"
    and r1: "path_links ip' = path_links ip1 @ rev (take n (links p))"
    and r2: "lidx ip' = lidx ip1 + int n" "lidx ip' \<le> int (length (links ip'))"
    and r3: "switches ip' = switches ip1" "sidx ip' = sidx ip1" "h1 ip' = h1 ip1" "h2 ip' = h2 ip1"
           "endpts ip' = endpts ip1" "extip ip' = extip ip1" "is_reverse ip' = is_reverse ip1"
    by blast
  have step: "invert_links p (int (Suc n) - 1) ip = invert_links p (int n - 1) ip1"
    using n l a by (simp add: slice_get_def)
  show ?case
    using step r r1 r2 r3 b c d tk l by simp
qed

lemma invert_switches_rev:
  assumes "n \<le> length (switches p)"
    and "0 \<le> sidx ip" "sidx ip \<le> int (length (switches ip))"
  shows "\<exists>ip'. invert_switches p (int n - 1) ip = Some ip'
     \<and> path_switches ip' = path_switches ip @ rev (take n (switches p))
     \<and> sidx ip' = sidx ip + int n \<and> sidx ip' \<le> int (length (switches ip'))
     \<and> links ip' = links ip \<and> lidx ip' = lidx ip \<and> h1 ip' = h1 ip \<and> h2 ip' = h2 ip
     \<and> endpts ip' = endpts ip \<and> extip ip' = extip ip \<and> is_reverse ip' = is_reverse ip"
  using assms
proof (induction n arbitrary: ip)
  case 0
  then show ?case by simp
next
  case (Suc n)
  have n: "n < length (switches p)" using Suc.prems(1) by simp
  have tk: "take (Suc n) (switches p) = take n (switches p) @ [switches p ! n]"
    using n by (simp add: take_Suc_conv_app_nth)
  from path_switches_Add_switch [OF Suc.prems(2) Suc.prems(3), of "switches p ! n"]
  obtain ip1 where a: "Add_switch ip (switches p ! n) = Some ip1"
    and b: "path_switches ip1 = path_switches ip @ [switches p ! n]"
    and c: "sidx ip1 = sidx ip + 1" "sidx ip1 \<le> int (length (switches ip1))"
    and d: "links ip1 = links ip" "lidx ip1 = lidx ip" "h1 ip1 = h1 ip" "h2 ip1 = h2 ip"
           "endpts ip1 = endpts ip" "extip ip1 = extip ip" "is_reverse ip1 = is_reverse ip"
    by blast
  have p1: "n \<le> length (switches p)" using n by simp
  have p3: "0 \<le> sidx ip1" using c Suc.prems(2) by simp
  from Suc.IH [OF p1 p3 c(2)]
  obtain ip' where r: "invert_switches p (int n - 1) ip1 = Some ip'"
    and r1: "path_switches ip' = path_switches ip1 @ rev (take n (switches p))"
    and r2: "sidx ip' = sidx ip1 + int n" "sidx ip' \<le> int (length (switches ip'))"
    and r3: "links ip' = links ip1" "lidx ip' = lidx ip1" "h1 ip' = h1 ip1" "h2 ip' = h2 ip1"
           "endpts ip' = endpts ip1" "extip ip' = extip ip1" "is_reverse ip' = is_reverse ip1"
    by blast
  have step: "invert_switches p (int (Suc n) - 1) ip = invert_switches p (int n - 1) ip1"
    using n a by (simp add: slice_get_def)
  show ?case
    using step r r1 r2 r3 b c d tk by simp
qed

lemma Invert_path_rev:
  assumes "path_ok p"
  shows "\<exists>ip. Invert_path p = Some ip
     \<and> path_links ip = rev (path_links p) \<and> path_switches ip = rev (path_switches p)
     \<and> is_reverse ip = (\<not> is_reverse p) \<and> lidx ip = lidx p \<and> sidx ip = sidx p
     \<and> h1 ip = h1 p \<and> h2 ip = h2 p \<and> endpts ip = [None, None] \<and> extip ip = None
     \<and> path_ok ip"
proof -
  let ?m = "Mk_path (h1 p) (h2 p)"
  have l0: "nat (lidx p) \<le> length (links p)" "None \<notin> set (take (nat (lidx p)) (links p))"
    and s0: "nat (sidx p) \<le> length (switches p)"
    and nn: "int (nat (lidx p)) = lidx p" "int (nat (sidx p)) = sidx p"
    using assms by (auto simp: path_ok_def path_links_def)
  have m: "0 \<le> lidx ?m" "lidx ?m \<le> int (length (links ?m))"
    by (simp_all add: Mk_path_def)
  from invert_links_rev [OF l0 m]
  obtain ip1 where a: "invert_links p (lidx p - 1) ?m = Some ip1"
    and a1: "path_links ip1 = path_links ?m @ rev (path_links p)"
    and a2: "lidx ip1 = lidx ?m + lidx p" "lidx ip1 \<le> int (length (links ip1))"
    and a3: "switches ip1 = switches ?m" "sidx ip1 = sidx ?m" "h1 ip1 = h1 ?m" "h2 ip1 = h2 ?m"
            "endpts ip1 = endpts ?m" "extip ip1 = extip ?m"
    unfolding nn path_links_def by blast
  have s1: "0 \<le> sidx ip1" "sidx ip1 \<le> int (length (switches ip1))"
    using a3 by (simp_all add: Mk_path_def)
  from invert_switches_rev [OF s0 s1]
  obtain ip2 where b: "invert_switches p (sidx p - 1) ip1 = Some ip2"
    and b1: "path_switches ip2 = path_switches ip1 @ rev (path_switches p)"
    and b2: "sidx ip2 = sidx ip1 + sidx p" "sidx ip2 \<le> int (length (switches ip2))"
    and b3: "links ip2 = links ip1" "lidx ip2 = lidx ip1" "h1 ip2 = h1 ip1" "h2 ip2 = h2 ip1"
            "endpts ip2 = endpts ip1" "extip ip2 = extip ip1"
    unfolding nn path_switches_def by blast
  have e: "Invert_path p = Some (ip2\<lparr>is_reverse := \<not> is_reverse p\<rparr>)"
    using a b by (simp add: Invert_path_def)
  have pl: "path_links ip2 = rev (path_links p)"
    using a1 b3 by (simp add: path_links_def Mk_path_def)
  have ps: "path_switches ip2 = rev (path_switches p)"
    using b1 a3 by (simp add: path_switches_def Mk_path_def)
  have ok: "path_ok (ip2\<lparr>is_reverse := \<not> is_reverse p\<rparr>)"
    using assms pl a2 b2 b3 a3
    by (simp add: path_ok_def path_links_def Mk_path_def)
  show ?thesis
    using e pl ps ok a2 a3 b2 b3
    by (simp add: path_links_def path_switches_def Mk_path_def numeral_2_eq_2)
qed


lemma path_ok_Mk_path: "path_ok (Mk_path a b)"
  by (simp add: path_ok_def Mk_path_def path_links_def)

lemma path_ok_Add_link:
  assumes "path_ok p"
  shows "\<exists>p'. Add_link p l = Some p' \<and> path_ok p'"
proof (cases l)
  case None
  then show ?thesis using assms by (simp add: Add_link_def)
next
  case (Some x)
  have a: "0 \<le> lidx p" "lidx p \<le> int (length (links p))"
    using assms by (simp_all add: path_ok_def)
  from path_links_Add_link [OF a, of x] obtain p' where
    "Add_link p (Some x) = Some p'" "path_links p' = path_links p @ [Some x]"
    "lidx p' = lidx p + 1" "lidx p' \<le> int (length (links p'))"
    "switches p' = switches p" "sidx p' = sidx p"
    by blast
  then show ?thesis using assms Some by (simp add: path_ok_def)
qed

lemma path_ok_Add_switch:
  assumes "path_ok p"
  shows "\<exists>p'. Add_switch p s = Some p' \<and> path_ok p'"
proof -
  have a: "0 \<le> sidx p" "sidx p \<le> int (length (switches p))"
    using assms by (simp_all add: path_ok_def)
  from path_switches_Add_switch [OF a, of s] obtain p' where
    "Add_switch p s = Some p'" "sidx p' = sidx p + 1" "sidx p' \<le> int (length (switches p'))"
    "links p' = links p" "lidx p' = lidx p"
    by blast
  then show ?thesis using assms by (auto simp add: path_ok_def path_links_def)
qed

text \<open>
  C10. \<open>Invert\<close> on a path that has the shape the constructors keep
  (\<open>path_ok\<close>: the counters lie within the slices and no used link slot is nil,
  as \<open>Add_link\<close> never stores nil) allocates a new path whose used links and
  switches are those of the receiver in reverse order and whose reverse flag is
  negated; every path that was in the store, the receiver included, is left as
  it was. Inverting the new path again gives a path with the link order, the
  switch order and the reverse flag of the original.
\<close>

theorem Invert_reverses_new_path:
  assumes "a < length st" and "path_ok (st ! a)"
  shows "\<exists>b st'. Invert st a = Some (b, st')
     \<and> b = length st \<and> length st' = Suc (length st)
     \<and> (\<forall>c < length st. st' ! c = st ! c)
     \<and> path_links (st' ! b) = rev (path_links (st ! a))
     \<and> path_switches (st' ! b) = rev (path_switches (st ! a))
     \<and> is_reverse (st' ! b) = (\<not> is_reverse (st ! a))
     \<and> (\<exists>c st''. Invert st' b = Some (c, st'')
           \<and> st'' ! a = st ! a \<and> st'' ! b = st' ! b
           \<and> path_links (st'' ! c) = path_links (st ! a)
           \<and> path_switches (st'' ! c) = path_switches (st ! a)
           \<and> is_reverse (st'' ! c) = is_reverse (st ! a))"
proof -
  from Invert_path_rev [OF assms(2)] obtain ip where
    i: "Invert_path (st ! a) = Some ip"
    and i1: "path_links ip = rev (path_links (st ! a))"
            "path_switches ip = rev (path_switches (st ! a))"
            "is_reverse ip = (\<not> is_reverse (st ! a))"
    and ok: "path_ok ip"
    by blast
  from Invert_path_rev [OF ok] obtain ip2 where
    j: "Invert_path ip = Some ip2"
    and j1: "path_links ip2 = rev (path_links ip)"
            "path_switches ip2 = rev (path_switches ip)"
            "is_reverse ip2 = (\<not> is_reverse ip)"
    by blast
  have first: "Invert st a = Some (length st, st @ [ip])"
    using assms(1) i by (simp add: Invert_def)
  have second: "Invert (st @ [ip]) (length st) = Some (Suc (length st), st @ [ip, ip2])"
    using j by (simp add: Invert_def)
  have keep: "\<forall>c < length st. (st @ [ip]) ! c = st ! c"
    by (simp add: nth_append)
  have k2: "(st @ [ip, ip2]) ! a = st ! a" "(st @ [ip, ip2]) ! length st = ip"
           "(st @ [ip, ip2]) ! Suc (length st) = ip2"
    using assms(1) by (simp_all add: nth_append)
  show ?thesis
    using first second keep k2 i1 j1 by simp
qed

theorem Invert_reverses_new_path_witness:
  "path_ok \<lparr>links = [Some 7, Some 8, None], lidx = 2, switches = [Some 1, Some 2, Some 3], sidx = 3,
      h1 = Some 0, h2 = Some 1, endpts = [Some 20, Some 21], extip = None, is_reverse = False\<rparr>
   \<and> (\<exists>b st'. Invert [\<lparr>links = [Some 7, Some 8, None], lidx = 2, switches = [Some 1, Some 2, Some 3], sidx = 3,
      h1 = Some 0, h2 = Some 1, endpts = [Some 20, Some 21], extip = None, is_reverse = False\<rparr>] 0 = Some (b, st')
        \<and> path_links (st' ! b) = [Some 8, Some 7]
        \<and> path_switches (st' ! b) = [Some 3, Some 2, Some 1]
        \<and> is_reverse (st' ! b))"
  using Invert_reverses_new_path [of 0 "[\<lparr>links = [Some 7, Some 8, None], lidx = 2, switches = [Some 1, Some 2, Some 3], sidx = 3,
      h1 = Some 0, h2 = Some 1, endpts = [Some 20, Some 21], extip = None, is_reverse = False\<rparr>]"]
  by (auto simp add: path_ok_def path_links_def path_switches_def)

subsection \<open>Agent dispatcher: which agent a request goes to\<close>

lemma send2one_round_robin:
  assumes "1 < card (dom (agents ad))" and "length (agent_list ad) = card (dom (agents ad))"
    and "1 \<le> aidx ad" and "aidx ad < int (length (agent_list ad))"
  shows "\<exists>ad'. send2one ad msg = Some (ad', [(agent_id (agent_list ad ! nat (aidx ad)), msg)])
     \<and> 1 \<le> aidx ad' \<and> aidx ad' < int (length (agent_list ad'))
     \<and> aidx ad' = (if aidx ad + 1 < int (length (agent_list ad)) then aidx ad + 1 else 1)
     \<and> agents ad' = agents ad \<and> agent_list ad' = agent_list ad"
  using assms by (auto simp add: send2one_def slice_get_def Let_def)

lemma send2lra_first:
  assumes "0 < card (dom (agents ad))" and "agent_list ad = a # as"
  shows "send2lra ad msg = Some (ad, [(agent_id a, msg)])"
  using assms by (simp add: send2lra_def slice_get_def)

text \<open>
  C7. Short sends go round robin and leave out index 0 while more than one agent
  is connected, and a long send goes to the agent at index 0. Two agents
  connect to a new dispatcher, which leaves the round robin index at 0: the
  first short request is written to the agent at index 0. With the index at 1
  a long request is written to the agent at index 1, as the request switch
  hands it to \<open>send2one\<close>; \<open>send2lra\<close> on the same state writes to index 0.
\<close>

theorem first_short_and_long_send_selection:
  "snd (Mk_agent [''a0'', ''a1''] ''a1'' (snd (Mk_agent [''a0''] ''a0'' new_agent_data))) =
     \<lparr>agents = [''a0'' \<mapsto> \<lparr>agent_id = ''a0'', jcache = []\<rparr>, ''a1'' \<mapsto> \<lparr>agent_id = ''a1'', jcache = []\<rparr>],
        agent_list = [\<lparr>agent_id = ''a0'', jcache = []\<rparr>, \<lparr>agent_id = ''a1'', jcache = []\<rparr>], aidx = 0\<rparr>
   \<and> Agent_mgr_send [''a0'', ''a1''] REQ_SENDSHORT (Some ''m'')
       \<lparr>agents = [''a0'' \<mapsto> \<lparr>agent_id = ''a0'', jcache = []\<rparr>, ''a1'' \<mapsto> \<lparr>agent_id = ''a1'', jcache = []\<rparr>],
        agent_list = [\<lparr>agent_id = ''a0'', jcache = []\<rparr>, \<lparr>agent_id = ''a1'', jcache = []\<rparr>], aidx = 0\<rparr>
     = Some (\<lparr>agents = [''a0'' \<mapsto> \<lparr>agent_id = ''a0'', jcache = []\<rparr>, ''a1'' \<mapsto> \<lparr>agent_id = ''a1'', jcache = []\<rparr>],
        agent_list = [\<lparr>agent_id = ''a0'', jcache = []\<rparr>, \<lparr>agent_id = ''a1'', jcache = []\<rparr>], aidx = 1\<rparr>, [(''a0'', ''m'')])
   \<and> Agent_mgr_send [''a0'', ''a1''] REQ_SENDLONG (Some ''m'')
       \<lparr>agents = [''a0'' \<mapsto> \<lparr>agent_id = ''a0'', jcache = []\<rparr>, ''a1'' \<mapsto> \<lparr>agent_id = ''a1'', jcache = []\<rparr>],
        agent_list = [\<lparr>agent_id = ''a0'', jcache = []\<rparr>, \<lparr>agent_id = ''a1'', jcache = []\<rparr>], aidx = 1\<rparr>
     = Some (\<lparr>agents = [''a0'' \<mapsto> \<lparr>agent_id = ''a0'', jcache = []\<rparr>, ''a1'' \<mapsto> \<lparr>agent_id = ''a1'', jcache = []\<rparr>],
        agent_list = [\<lparr>agent_id = ''a0'', jcache = []\<rparr>, \<lparr>agent_id = ''a1'', jcache = []\<rparr>], aidx = 1\<rparr>, [(''a1'', ''m'')])
   \<and> send2lra
       \<lparr>agents = [''a0'' \<mapsto> \<lparr>agent_id = ''a0'', jcache = []\<rparr>, ''a1'' \<mapsto> \<lparr>agent_id = ''a1'', jcache = []\<rparr>],
        agent_list = [\<lparr>agent_id = ''a0'', jcache = []\<rparr>, \<lparr>agent_id = ''a1'', jcache = []\<rparr>], aidx = 1\<rparr> ''m''
     = Some (\<lparr>agents = [''a0'' \<mapsto> \<lparr>agent_id = ''a0'', jcache = []\<rparr>, ''a1'' \<mapsto> \<lparr>agent_id = ''a1'', jcache = []\<rparr>],
        agent_list = [\<lparr>agent_id = ''a0'', jcache = []\<rparr>, \<lparr>agent_id = ''a1'', jcache = []\<rparr>], aidx = 1\<rparr>, [(''a0'', ''m'')])"
  by (simp add: Agent_mgr_send_def send2one_def send2lra_def slice_get_def Mk_agent_def
        new_agent_data_def build_list_def List.map_filter_def Let_def)

subsection \<open>Steering flow-mods: priority and late binding\<close>


lemma steer_opts_ignore_Pri:
  "table_opt (data\<lparr>Pri := n\<rparr>) = table_opt data"
  "match_meta (data\<lparr>Pri := n\<rparr>) = match_meta data"
  "match_inport (data\<lparr>Pri := n\<rparr>) = match_inport data"
  "match_rest (data\<lparr>Pri := n\<rparr>) ip2mac = match_rest data ip2mac"
  "action_opts (data\<lparr>Pri := n\<rparr>) = action_opts data"
  by (simp_all add: table_opt_def match_meta_def match_inport_def match_rest_def
        match_ports_def action_opts_def split: option.splits)

lemma match_opts_ignore_Pri:
  "match_opts (data\<lparr>Pri := n\<rparr>) ip2mac = match_opts data ip2mac"
  by (simp add: match_opts_def steer_opts_ignore_Pri split: option.splits)

lemma send_stfmod_agent_returns:
  "hlist \<noteq> None \<or> Swid data \<noteq> None \<or> match_rest data ip2mac = None
   \<Longrightarrow> \<exists>d msgs. send_stfmod_agent data ip2mac hlist = Some (d, msgs)"
  by (auto simp add: send_stfmod_agent_def match_opts_def steer_opts_ignore_Pri Let_def
      split: option.splits)

lemma match_inport_late_binding:
  "Swport (Match data) = - 128 \<Longrightarrow>
   match_inport data = (case Lbmac data of Some lbmac \<Rightarrow> '' -i '' @ lbmac | None \<Rightarrow> [])"
  by (simp add: match_inport_def)

lemma show_int_100: "show_int 100 = ''100''"
  by (simp add: show_int_def show_nat.simps digit_char_def)

lemma base_json_text:
  "base_json = ''{ '' @ CHR 0x22 # ''ctype'' @ CHR 0x22 # '': '' @ CHR 0x22 # ''action_list'' @ CHR 0x22 # '', '' @ CHR 0x22 # ''actions'' @ CHR 0x22 # '': [ { '' @ CHR 0x22 # ''atype'' @ CHR 0x22 # '': '' @ CHR 0x22 # ''flowmod'' @ CHR 0x22 # '', '' @ CHR 0x22 # ''fdata'' @ CHR 0x22 # '': [ ''"
  by (simp add: base_json_def quoted_def dquote_def)

lemma send_stfmod_agent_text:
  assumes "send_stfmod_agent data ip2mac hlist = Some (d, msgs)" and "m \<in> set msgs"
  shows "\<exists>target r.
       match_rest data ip2mac = Some r
     \<and> (case Swid data of
          None \<Rightarrow> \<exists>hl host. hlist = Some hl \<and> host \<in> set (split_blank hl)
                    \<and> target = host @ '' '' @ table_opt data
        | Some swid \<Rightarrow> target = swid)
     \<and> Pri d = (if Pri data \<le> 0 then 100 else Pri data)
     \<and> m = ''{ '' @ CHR 0x22 # ''ctype'' @ CHR 0x22 # '': '' @ CHR 0x22 # ''action_list'' @ CHR 0x22 # '', '' @ CHR 0x22 # ''actions'' @ CHR 0x22 # '': [ { '' @ CHR 0x22 # ''atype'' @ CHR 0x22 # '': '' @ CHR 0x22 # ''flowmod'' @ CHR 0x22 # '', '' @ CHR 0x22 # ''fdata'' @ CHR 0x22 # '': [ ''
           @ CHR 0x22 # ''-h '' @ target @ '' -t '' @ show_int (Expiry data)
           @ '' -p '' @ (if Pri data \<le> 0 then ''100'' else show_int (Pri data))
           @ '' --match'' @ match_meta data
           @ (if 0 \<le> Swport (Match data) then '' -i '' @ show_int (Swport (Match data))
              else if Swport (Match data) = - 128
                   then (case Lbmac data of Some lbmac \<Rightarrow> '' -i '' @ lbmac | None \<Rightarrow> [])
                   else [])
           @ r @ '' '' @ action_opts data @ '' add 0xe5d br-int'' @ CHR 0x22 # '' ] } ] }''"
proof -
  define pd where "pd = (if Pri data \<le> 0 then data\<lparr>Pri := 100\<rparr> else data)"
  have pd: "table_opt pd = table_opt data" "match_meta pd = match_meta data"
    "match_inport pd = match_inport data" "match_rest pd ip2mac = match_rest data ip2mac"
    "action_opts pd = action_opts data" "Swid pd = Swid data" "Expiry pd = Expiry data"
    by (simp_all add: pd_def steer_opts_ignore_Pri)
  have pp: "Pri pd = (if Pri data \<le> 0 then 100 else Pri data)"
    by (simp add: pd_def)
  have sp: "show_int (Pri pd) = (if Pri data \<le> 0 then ''100'' else show_int (Pri data))"
    by (simp add: pp show_int_100)
  have s: "send_stfmod_agent data ip2mac hlist =
      (case match_opts pd ip2mac of
           None \<Rightarrow> Some (pd, [])
         | Some mo \<Rightarrow>
             (case Swid pd of
                None \<Rightarrow>
                  (case hlist of
                     None \<Rightarrow> None
                   | Some hl \<Rightarrow>
                       Some (pd, map (\<lambda>host. fmod_json_all host (table_opt pd) (Expiry pd)
                                                  (Pri pd) mo (action_opts pd))
                                       (split_blank hl)))
              | Some swid \<Rightarrow>
                  Some (pd, [fmod_json_one swid (Expiry pd) (Pri pd) mo (action_opts pd)])))"
    by (simp only: send_stfmod_agent_def pd_def Let_def)
  from assms s obtain r where r: "match_rest data ip2mac = Some r"
    by (cases "match_rest data ip2mac") (auto simp add: match_opts_def pd)
  let ?mo = "''--match'' @ match_meta data @ match_inport data @ r"
  have mo: "match_opts pd ip2mac = Some ?mo"
    by (simp add: match_opts_def pd r)
  have inport: "match_inport data =
      (if 0 \<le> Swport (Match data) then '' -i '' @ show_int (Swport (Match data))
       else if Swport (Match data) = - 128
            then (case Lbmac data of Some lbmac \<Rightarrow> '' -i '' @ lbmac | None \<Rightarrow> [])
            else [])"
    by (simp add: match_inport_def)
  show ?thesis
  proof (cases "Swid data")
    case None
    from assms s mo None obtain hl where hl: "hlist = Some hl"
      by (cases hlist) (simp_all add: pd)
    have e: "send_stfmod_agent data ip2mac hlist =
        Some (pd, map (\<lambda>host. fmod_json_all host (table_opt data) (Expiry data) (Pri pd) ?mo
                                   (action_opts data)) (split_blank hl))"
      using s by (simp add: mo None hl pd)
    from assms e have d: "d = pd"
      and "m \<in> set (map (\<lambda>host. fmod_json_all host (table_opt data) (Expiry data) (Pri pd) ?mo
                                   (action_opts data)) (split_blank hl))"
      by auto
    then obtain host where host: "host \<in> set (split_blank hl)"
      and m: "m = fmod_json_all host (table_opt data) (Expiry data) (Pri pd) ?mo (action_opts data)"
      by auto
    have t: "m = ''{ '' @ CHR 0x22 # ''ctype'' @ CHR 0x22 # '': '' @ CHR 0x22 # ''action_list'' @ CHR 0x22 # '', '' @ CHR 0x22 # ''actions'' @ CHR 0x22 # '': [ { '' @ CHR 0x22 # ''atype'' @ CHR 0x22 # '': '' @ CHR 0x22 # ''flowmod'' @ CHR 0x22 # '', '' @ CHR 0x22 # ''fdata'' @ CHR 0x22 # '': [ ''
           @ CHR 0x22 # ''-h '' @ (host @ '' '' @ table_opt data) @ '' -t '' @ show_int (Expiry data)
           @ '' -p '' @ (if Pri data \<le> 0 then ''100'' else show_int (Pri data))
           @ '' --match'' @ match_meta data
           @ (if 0 \<le> Swport (Match data) then '' -i '' @ show_int (Swport (Match data))
              else if Swport (Match data) = - 128
                   then (case Lbmac data of Some lbmac \<Rightarrow> '' -i '' @ lbmac | None \<Rightarrow> [])
                   else [])
           @ r @ '' '' @ action_opts data @ '' add 0xe5d br-int'' @ CHR 0x22 # '' ] } ] }''"
      unfolding m fmod_json_all_def sp inport [symmetric]
      by (simp add: quoted_def dquote_def base_json_text)
    show ?thesis
      apply (rule exI [of _ "host @ '' '' @ table_opt data"])
      apply (rule exI [of _ r])
      using None hl host d pp r t by simp
  next
    case (Some swid)
    have e: "send_stfmod_agent data ip2mac hlist =
        Some (pd, [fmod_json_one swid (Expiry data) (Pri pd) ?mo (action_opts data)])"
      using s by (simp add: mo Some pd)
    from assms e have d: "d = pd"
      and m: "m = fmod_json_one swid (Expiry data) (Pri pd) ?mo (action_opts data)"
      by auto
    have t: "m = ''{ '' @ CHR 0x22 # ''ctype'' @ CHR 0x22 # '': '' @ CHR 0x22 # ''action_list'' @ CHR 0x22 # '', '' @ CHR 0x22 # ''actions'' @ CHR 0x22 # '': [ { '' @ CHR 0x22 # ''atype'' @ CHR 0x22 # '': '' @ CHR 0x22 # ''flowmod'' @ CHR 0x22 # '', '' @ CHR 0x22 # ''fdata'' @ CHR 0x22 # '': [ ''
           @ CHR 0x22 # ''-h '' @ swid @ '' -t '' @ show_int (Expiry data)
           @ '' -p '' @ (if Pri data \<le> 0 then ''100'' else show_int (Pri data))
           @ '' --match'' @ match_meta data
           @ (if 0 \<le> Swport (Match data) then '' -i '' @ show_int (Swport (Match data))
              else if Swport (Match data) = - 128
                   then (case Lbmac data of Some lbmac \<Rightarrow> '' -i '' @ lbmac | None \<Rightarrow> [])
                   else [])
           @ r @ '' '' @ action_opts data @ '' add 0xe5d br-int'' @ CHR 0x22 # '' ] } ] }''"
      unfolding m fmod_json_one_def sp inport [symmetric]
      by (simp add: quoted_def dquote_def base_json_text)
    show ?thesis
      apply (rule exI [of _ swid])
      apply (rule exI [of _ r])
      using Some d pp r t by simp
  qed
qed


text \<open>
  C8. Every flow-mod that \<open>send_stfmod_agent\<close> emits is the JSON text around the
  command \<open>-h target -t expiry -p priority --match ... --action ... add 0xe5d
  br-int\<close>. The priority printed is that of the request, or 100 when that
  priority is not positive, and the request block is left with it. The match
  options are the metadata option, the inbound port option and the MAC and
  transport port options; when the inbound switch port is the sentinel \<open>-128\<close>
  the inbound port option is \<open>-i\<close> followed by the late binding MAC, and when no
  late binding MAC was given no inbound port option is printed at all.
\<close>

theorem send_stfmod_agent_priority_and_late_binding:
  assumes "send_stfmod_agent data ip2mac hlist = Some (d, msgs)" and "m \<in> set msgs"
  shows "\<exists>target r.
       match_rest data ip2mac = Some r
     \<and> (case Swid data of
          None \<Rightarrow> \<exists>hl host. hlist = Some hl \<and> host \<in> set (split_blank hl)
                    \<and> target = host @ '' '' @ table_opt data
        | Some swid \<Rightarrow> target = swid)
     \<and> Pri d = (if Pri data \<le> 0 then 100 else Pri data)
     \<and> m = ''{ '' @ CHR 0x22 # ''ctype'' @ CHR 0x22 # '': '' @ CHR 0x22 # ''action_list'' @ CHR 0x22 # '', '' @ CHR 0x22 # ''actions'' @ CHR 0x22 # '': [ { '' @ CHR 0x22 # ''atype'' @ CHR 0x22 # '': '' @ CHR 0x22 # ''flowmod'' @ CHR 0x22 # '', '' @ CHR 0x22 # ''fdata'' @ CHR 0x22 # '': [ ''
           @ CHR 0x22 # ''-h '' @ target @ '' -t '' @ show_int (Expiry data)
           @ '' -p '' @ (if Pri data \<le> 0 then ''100'' else show_int (Pri data))
           @ '' --match'' @ match_meta data
           @ (if 0 \<le> Swport (Match data) then '' -i '' @ show_int (Swport (Match data))
              else if Swport (Match data) = - 128
                   then (case Lbmac data of Some lbmac \<Rightarrow> '' -i '' @ lbmac | None \<Rightarrow> [])
                   else [])
           @ r @ '' '' @ action_opts data @ '' add 0xe5d br-int'' @ CHR 0x22 # '' ] } ] }''
     \<and> (Pri data \<le> 0 \<longrightarrow> (\<exists>pre post. m = pre @ '' -p 100 '' @ post))
     \<and> (Swport (Match data) = - 128 \<longrightarrow>
          (case Lbmac data of
             Some lbmac \<Rightarrow>
               \<exists>pre post. m = pre @ '' --match'' @ match_meta data @ '' -i '' @ lbmac @ r @ post
           | None \<Rightarrow>
               \<exists>pre post. m = pre @ '' --match'' @ match_meta data @ r @ post))"
proof -
  from send_stfmod_agent_text [OF assms] obtain target r where
    r: "match_rest data ip2mac = Some r"
    and tg: "(case Swid data of
          None \<Rightarrow> \<exists>hl host. hlist = Some hl \<and> host \<in> set (split_blank hl)
                    \<and> target = host @ '' '' @ table_opt data
        | Some swid \<Rightarrow> target = swid)"
    and p: "Pri d = (if Pri data \<le> 0 then 100 else Pri data)"
    and t: "m = ''{ '' @ CHR 0x22 # ''ctype'' @ CHR 0x22 # '': '' @ CHR 0x22 # ''action_list'' @ CHR 0x22 # '', '' @ CHR 0x22 # ''actions'' @ CHR 0x22 # '': [ { '' @ CHR 0x22 # ''atype'' @ CHR 0x22 # '': '' @ CHR 0x22 # ''flowmod'' @ CHR 0x22 # '', '' @ CHR 0x22 # ''fdata'' @ CHR 0x22 # '': [ ''
           @ CHR 0x22 # ''-h '' @ target @ '' -t '' @ show_int (Expiry data)
           @ '' -p '' @ (if Pri data \<le> 0 then ''100'' else show_int (Pri data))
           @ '' --match'' @ match_meta data
           @ (if 0 \<le> Swport (Match data) then '' -i '' @ show_int (Swport (Match data))
              else if Swport (Match data) = - 128
                   then (case Lbmac data of Some lbmac \<Rightarrow> '' -i '' @ lbmac | None \<Rightarrow> [])
                   else [])
           @ r @ '' '' @ action_opts data @ '' add 0xe5d br-int'' @ CHR 0x22 # '' ] } ] }''"
    by blast
  let ?pre = "''{ '' @ CHR 0x22 # ''ctype'' @ CHR 0x22 # '': '' @ CHR 0x22 # ''action_list'' @ CHR 0x22 # '', '' @ CHR 0x22 # ''actions'' @ CHR 0x22 # '': [ { '' @ CHR 0x22 # ''atype'' @ CHR 0x22 # '': '' @ CHR 0x22 # ''flowmod'' @ CHR 0x22 # '', '' @ CHR 0x22 # ''fdata'' @ CHR 0x22 # '': [ ''
           @ CHR 0x22 # ''-h '' @ target @ '' -t '' @ show_int (Expiry data)"
  let ?post = "'' '' @ action_opts data @ '' add 0xe5d br-int'' @ CHR 0x22 # '' ] } ] }''"
  have a: "\<exists>pre post. m = pre @ '' -p 100 '' @ post" if "Pri data \<le> 0"
    using that t
    by (intro exI [of _ ?pre] exI [of _ "''--match'' @ match_meta data
           @ (if 0 \<le> Swport (Match data) then '' -i '' @ show_int (Swport (Match data))
              else if Swport (Match data) = - 128
                   then (case Lbmac data of Some lbmac \<Rightarrow> '' -i '' @ lbmac | None \<Rightarrow> [])
                   else [])
           @ r @ ?post"]) simp
  have b: "(case Lbmac data of
             Some lbmac \<Rightarrow>
               \<exists>pre post. m = pre @ '' --match'' @ match_meta data @ '' -i '' @ lbmac @ r @ post
           | None \<Rightarrow>
               \<exists>pre post. m = pre @ '' --match'' @ match_meta data @ r @ post)"
    if "Swport (Match data) = - 128"
  proof (cases "Lbmac data")
    case None
    with that t show ?thesis
      by (simp only: option.case)
         (intro exI [of _ "?pre @ '' -p '' @ (if Pri data \<le> 0 then ''100'' else show_int (Pri data))"]
            exI [of _ ?post], simp)
  next
    case (Some lbmac)
    with that t show ?thesis
      by (simp only: option.case)
         (intro exI [of _ "?pre @ '' -p '' @ (if Pri data \<le> 0 then ''100'' else show_int (Pri data))"]
            exI [of _ ?post], simp)
  qed
  from r tg p t a b show ?thesis by blast
qed

theorem send_stfmod_agent_priority_and_late_binding_witness:
  "send_stfmod_agent
      \<lparr>Pri = 0, Expiry = 1700000000, Table = 0, Swid = Some ''sw1'',
        Lbmac = Some ''fa:16:3e:00:00:01'', Nxt_mac = Some ''fa:16:3e:00:00:02'', Protocol = None,
        Match = \<lparr>Meta = None, Swport = - 128, Smac = None, Dmac = None, Ip1 = Some ''10.0.0.1'',
                  Ip2 = None, Tpsport = - 1, Tpdport = - 1, Resub = None\<rparr>,
        Action = \<lparr>Meta = None, Swport = - 1, Smac = None, Dmac = None, Ip1 = None, Ip2 = None,
                   Tpsport = - 1, Tpdport = - 1, Resub = Some ''90 0''\<rparr>\<rparr>
      [''10.0.0.1'' \<mapsto> ''fa:16:3e:00:00:09''] None
    = Some (\<lparr>Pri = 100, Expiry = 1700000000, Table = 0, Swid = Some ''sw1'',
        Lbmac = Some ''fa:16:3e:00:00:01'', Nxt_mac = Some ''fa:16:3e:00:00:02'', Protocol = None,
        Match = \<lparr>Meta = None, Swport = - 128, Smac = None, Dmac = None, Ip1 = Some ''10.0.0.1'',
                  Ip2 = None, Tpsport = - 1, Tpdport = - 1, Resub = None\<rparr>,
        Action = \<lparr>Meta = None, Swport = - 1, Smac = None, Dmac = None, Ip1 = None, Ip2 = None,
                   Tpsport = - 1, Tpdport = - 1, Resub = Some ''90 0''\<rparr>\<rparr>,
          [''{ '' @ CHR 0x22 # ''ctype'' @ CHR 0x22 # '': '' @ CHR 0x22 # ''action_list'' @ CHR 0x22 # '', '' @ CHR 0x22 # ''actions'' @ CHR 0x22 # '': [ { '' @ CHR 0x22 # ''atype'' @ CHR 0x22 # '': '' @ CHR 0x22 # ''flowmod'' @ CHR 0x22 # '', '' @ CHR 0x22 # ''fdata'' @ CHR 0x22 # '': [ ''
            @ CHR 0x22 # ''-h sw1 -t 1700000000 -p 100 --match -i fa:16:3e:00:00:01 -s fa:16:3e:00:00:09 --action  -d fa:16:3e:00:00:02 -R ,90 -R ,0 -N add 0xe5d br-int''
            @ CHR 0x22 # '' ] } ] }''])
   \<and> (\<exists>pre post.
          ''{ '' @ CHR 0x22 # ''ctype'' @ CHR 0x22 # '': '' @ CHR 0x22 # ''action_list'' @ CHR 0x22 # '', '' @ CHR 0x22 # ''actions'' @ CHR 0x22 # '': [ { '' @ CHR 0x22 # ''atype'' @ CHR 0x22 # '': '' @ CHR 0x22 # ''flowmod'' @ CHR 0x22 # '', '' @ CHR 0x22 # ''fdata'' @ CHR 0x22 # '': [ ''
            @ CHR 0x22 # ''-h sw1 -t 1700000000 -p 100 --match -i fa:16:3e:00:00:01 -s fa:16:3e:00:00:09 --action  -d fa:16:3e:00:00:02 -R ,90 -R ,0 -N add 0xe5d br-int''
            @ CHR 0x22 # '' ] } ] }''
          = pre @ '' -p 100 '' @ post)
   \<and> send_stfmod_agent
      \<lparr>Pri = - 5, Expiry = 1700000000, Table = 3, Swid = None,
        Lbmac = None, Nxt_mac = None, Protocol = None,
        Match = \<lparr>Meta = None, Swport = - 128, Smac = Some ''fa:16:3e:00:00:09'', Dmac = None,
                  Ip1 = None, Ip2 = None, Tpsport = - 1, Tpdport = - 1, Resub = None\<rparr>,
        Action = \<lparr>Meta = None, Swport = - 1, Smac = None, Dmac = None, Ip1 = None, Ip2 = None,
                   Tpsport = - 1, Tpdport = - 1, Resub = None\<rparr>\<rparr>
      Map.empty (Some ''h1 h2'')
    = Some (\<lparr>Pri = 100, Expiry = 1700000000, Table = 3, Swid = None,
        Lbmac = None, Nxt_mac = None, Protocol = None,
        Match = \<lparr>Meta = None, Swport = - 128, Smac = Some ''fa:16:3e:00:00:09'', Dmac = None,
                  Ip1 = None, Ip2 = None, Tpsport = - 1, Tpdport = - 1, Resub = None\<rparr>,
        Action = \<lparr>Meta = None, Swport = - 1, Smac = None, Dmac = None, Ip1 = None, Ip2 = None,
                   Tpsport = - 1, Tpdport = - 1, Resub = None\<rparr>\<rparr>,
          [''{ '' @ CHR 0x22 # ''ctype'' @ CHR 0x22 # '': '' @ CHR 0x22 # ''action_list'' @ CHR 0x22 # '', '' @ CHR 0x22 # ''actions'' @ CHR 0x22 # '': [ { '' @ CHR 0x22 # ''atype'' @ CHR 0x22 # '': '' @ CHR 0x22 # ''flowmod'' @ CHR 0x22 # '', '' @ CHR 0x22 # ''fdata'' @ CHR 0x22 # '': [ ''
            @ CHR 0x22 # ''-h h1 -T 3  -t 1700000000 -p 100 --match -s fa:16:3e:00:00:09 --action  -N add 0xe5d br-int''
            @ CHR 0x22 # '' ] } ] }'',
           ''{ '' @ CHR 0x22 # ''ctype'' @ CHR 0x22 # '': '' @ CHR 0x22 # ''action_list'' @ CHR 0x22 # '', '' @ CHR 0x22 # ''actions'' @ CHR 0x22 # '': [ { '' @ CHR 0x22 # ''atype'' @ CHR 0x22 # '': '' @ CHR 0x22 # ''flowmod'' @ CHR 0x22 # '', '' @ CHR 0x22 # ''fdata'' @ CHR 0x22 # '': [ ''
            @ CHR 0x22 # ''-h h2 -T 3  -t 1700000000 -p 100 --match -s fa:16:3e:00:00:09 --action  -N add 0xe5d br-int''
            @ CHR 0x22 # '' ] } ] }''])"
proof -
  have h1: "send_stfmod_agent
      \<lparr>Pri = 0, Expiry = 1700000000, Table = 0, Swid = Some ''sw1'',
        Lbmac = Some ''fa:16:3e:00:00:01'', Nxt_mac = Some ''fa:16:3e:00:00:02'', Protocol = None,
        Match = \<lparr>Meta = None, Swport = - 128, Smac = None, Dmac = None, Ip1 = Some ''10.0.0.1'',
                  Ip2 = None, Tpsport = - 1, Tpdport = - 1, Resub = None\<rparr>,
        Action = \<lparr>Meta = None, Swport = - 1, Smac = None, Dmac = None, Ip1 = None, Ip2 = None,
                   Tpsport = - 1, Tpdport = - 1, Resub = Some ''90 0''\<rparr>\<rparr>
      [''10.0.0.1'' \<mapsto> ''fa:16:3e:00:00:09''] None
    = Some (\<lparr>Pri = 100, Expiry = 1700000000, Table = 0, Swid = Some ''sw1'',
        Lbmac = Some ''fa:16:3e:00:00:01'', Nxt_mac = Some ''fa:16:3e:00:00:02'', Protocol = None,
        Match = \<lparr>Meta = None, Swport = - 128, Smac = None, Dmac = None, Ip1 = Some ''10.0.0.1'',
                  Ip2 = None, Tpsport = - 1, Tpdport = - 1, Resub = None\<rparr>,
        Action = \<lparr>Meta = None, Swport = - 1, Smac = None, Dmac = None, Ip1 = None, Ip2 = None,
                   Tpsport = - 1, Tpdport = - 1, Resub = Some ''90 0''\<rparr>\<rparr>,
          [''{ '' @ CHR 0x22 # ''ctype'' @ CHR 0x22 # '': '' @ CHR 0x22 # ''action_list'' @ CHR 0x22 # '', '' @ CHR 0x22 # ''actions'' @ CHR 0x22 # '': [ { '' @ CHR 0x22 # ''atype'' @ CHR 0x22 # '': '' @ CHR 0x22 # ''flowmod'' @ CHR 0x22 # '', '' @ CHR 0x22 # ''fdata'' @ CHR 0x22 # '': [ ''
            @ CHR 0x22 # ''-h sw1 -t 1700000000 -p 100 --match -i fa:16:3e:00:00:01 -s fa:16:3e:00:00:09 --action  -d fa:16:3e:00:00:02 -R ,90 -R ,0 -N add 0xe5d br-int''
            @ CHR 0x22 # '' ] } ] }''])"
    by (simp add: send_stfmod_agent_def match_opts_def match_rest_def match_mac_def
          match_meta_def match_inport_def match_ports_def action_opts_def table_opt_def
          fmod_json_one_def fmod_json_all_def base_json_def quoted_def dquote_def
          show_int_def show_nat.simps digit_char_def)
  have h2: "''{ '' @ CHR 0x22 # ''ctype'' @ CHR 0x22 # '': '' @ CHR 0x22 # ''action_list'' @ CHR 0x22 # '', '' @ CHR 0x22 # ''actions'' @ CHR 0x22 # '': [ { '' @ CHR 0x22 # ''atype'' @ CHR 0x22 # '': '' @ CHR 0x22 # ''flowmod'' @ CHR 0x22 # '', '' @ CHR 0x22 # ''fdata'' @ CHR 0x22 # '': [ ''
            @ CHR 0x22 # ''-h sw1 -t 1700000000 -p 100 --match -i fa:16:3e:00:00:01 -s fa:16:3e:00:00:09 --action  -d fa:16:3e:00:00:02 -R ,90 -R ,0 -N add 0xe5d br-int''
            @ CHR 0x22 # '' ] } ] }''
        \<in> set [''{ '' @ CHR 0x22 # ''ctype'' @ CHR 0x22 # '': '' @ CHR 0x22 # ''action_list'' @ CHR 0x22 # '', '' @ CHR 0x22 # ''actions'' @ CHR 0x22 # '': [ { '' @ CHR 0x22 # ''atype'' @ CHR 0x22 # '': '' @ CHR 0x22 # ''flowmod'' @ CHR 0x22 # '', '' @ CHR 0x22 # ''fdata'' @ CHR 0x22 # '': [ ''
            @ CHR 0x22 # ''-h sw1 -t 1700000000 -p 100 --match -i fa:16:3e:00:00:01 -s fa:16:3e:00:00:09 --action  -d fa:16:3e:00:00:02 -R ,90 -R ,0 -N add 0xe5d br-int''
            @ CHR 0x22 # '' ] } ] }'']"
    by simp
  from send_stfmod_agent_priority_and_late_binding [OF h1 h2]
  have h3: "\<exists>pre post.
          ''{ '' @ CHR 0x22 # ''ctype'' @ CHR 0x22 # '': '' @ CHR 0x22 # ''action_list'' @ CHR 0x22 # '', '' @ CHR 0x22 # ''actions'' @ CHR 0x22 # '': [ { '' @ CHR 0x22 # ''atype'' @ CHR 0x22 # '': '' @ CHR 0x22 # ''flowmod'' @ CHR 0x22 # '', '' @ CHR 0x22 # ''fdata'' @ CHR 0x22 # '': [ ''
            @ CHR 0x22 # ''-h sw1 -t 1700000000 -p 100 --match -i fa:16:3e:00:00:01 -s fa:16:3e:00:00:09 --action  -d fa:16:3e:00:00:02 -R ,90 -R ,0 -N add 0xe5d br-int''
            @ CHR 0x22 # '' ] } ] }''
          = pre @ '' -p 100 '' @ post"
    by (elim exE conjE) simp
  have h4: "send_stfmod_agent
      \<lparr>Pri = - 5, Expiry = 1700000000, Table = 3, Swid = None,
        Lbmac = None, Nxt_mac = None, Protocol = None,
        Match = \<lparr>Meta = None, Swport = - 128, Smac = Some ''fa:16:3e:00:00:09'', Dmac = None,
                  Ip1 = None, Ip2 = None, Tpsport = - 1, Tpdport = - 1, Resub = None\<rparr>,
        Action = \<lparr>Meta = None, Swport = - 1, Smac = None, Dmac = None, Ip1 = None, Ip2 = None,
                   Tpsport = - 1, Tpdport = - 1, Resub = None\<rparr>\<rparr>
      Map.empty (Some ''h1 h2'')
    = Some (\<lparr>Pri = 100, Expiry = 1700000000, Table = 3, Swid = None,
        Lbmac = None, Nxt_mac = None, Protocol = None,
        Match = \<lparr>Meta = None, Swport = - 128, Smac = Some ''fa:16:3e:00:00:09'', Dmac = None,
                  Ip1 = None, Ip2 = None, Tpsport = - 1, Tpdport = - 1, Resub = None\<rparr>,
        Action = \<lparr>Meta = None, Swport = - 1, Smac = None, Dmac = None, Ip1 = None, Ip2 = None,
                   Tpsport = - 1, Tpdport = - 1, Resub = None\<rparr>\<rparr>,
          [''{ '' @ CHR 0x22 # ''ctype'' @ CHR 0x22 # '': '' @ CHR 0x22 # ''action_list'' @ CHR 0x22 # '', '' @ CHR 0x22 # ''actions'' @ CHR 0x22 # '': [ { '' @ CHR 0x22 # ''atype'' @ CHR 0x22 # '': '' @ CHR 0x22 # ''flowmod'' @ CHR 0x22 # '', '' @ CHR 0x22 # ''fdata'' @ CHR 0x22 # '': [ ''
            @ CHR 0x22 # ''-h h1 -T 3  -t 1700000000 -p 100 --match -s fa:16:3e:00:00:09 --action  -N add 0xe5d br-int''
            @ CHR 0x22 # '' ] } ] }'',
           ''{ '' @ CHR 0x22 # ''ctype'' @ CHR 0x22 # '': '' @ CHR 0x22 # ''action_list'' @ CHR 0x22 # '', '' @ CHR 0x22 # ''actions'' @ CHR 0x22 # '': [ { '' @ CHR 0x22 # ''atype'' @ CHR 0x22 # '': '' @ CHR 0x22 # ''flowmod'' @ CHR 0x22 # '', '' @ CHR 0x22 # ''fdata'' @ CHR 0x22 # '': [ ''
            @ CHR 0x22 # ''-h h2 -T 3  -t 1700000000 -p 100 --match -s fa:16:3e:00:00:09 --action  -N add 0xe5d br-int''
            @ CHR 0x22 # '' ] } ] }''])"
    by (simp add: send_stfmod_agent_def match_opts_def match_rest_def match_mac_def
          match_meta_def match_inport_def match_ports_def action_opts_def table_opt_def
          fmod_json_one_def fmod_json_all_def base_json_def quoted_def dquote_def
          show_int_def show_nat.simps digit_char_def)
  from h1 h3 h4 show ?thesis by blast
qed

subsection \<open>Inventory: adding, fetching and deleting\<close>


lemma Is_valid_cookie_owner: "Is_valid_cookie p c \<longleftrightarrow> c = usrkey p"
  by (simp add: Is_valid_cookie_def)

text \<open>
  C2. For a name that is in the inventory, \<open>Get_res\<close> returns the pledge and no
  error exactly when the cookie given is the cookie of the pledge's owner or
  the super cookie; otherwise it returns a nil pledge and the "not authorised"
  error. In both cases the inventory is left as it was.
\<close>

theorem Get_res_cookie_authority:
  assumes "cache invt nm = Some p"
  shows "(Get_res super_cookie invt nm cookie = ((Some p, None), invt)
            \<longleftrightarrow> cookie = usrkey p \<or> cookie = super_cookie)
     \<and> (\<not> (cookie = usrkey p \<or> cookie = super_cookie)
            \<longrightarrow> Get_res super_cookie invt nm cookie = ((None, Some (Not_authorised nm)), invt))
     \<and> snd (Get_res super_cookie invt nm cookie) = invt"
  using assms by (auto simp add: Get_res_def Is_valid_cookie_def)

lemma keyed_Mk_inventory: "keyed Mk_inventory"
  by (simp add: keyed_def Mk_inventory_def)

lemma keyed_unique:
  assumes "keyed invt" and "cache invt k1 = Some q1" and "cache invt k2 = Some q2"
    and "Get_id q1 = Get_id q2"
  shows "k1 = k2 \<and> q1 = q2"
  using assms by (auto simp add: keyed_def)

text \<open>
  C3. \<open>Add_res\<close> returns an error exactly when the inventory holds a pledge
  under the id of the new one; with the error the inventory is unchanged,
  without it the pledge is stored under its id. An inventory in which every
  pledge is held under its own id stays so; in such an inventory the error
  comes exactly when some pledge held has the id of the new one, and two
  entries with the same pledge id are one entry: there is at most one pledge
  per id.
\<close>

theorem Add_res_rejects_duplicate_id:
  "(fst (Add_res invt p) \<noteq> None \<longleftrightarrow> cache invt (Get_id p) \<noteq> None)
   \<and> (fst (Add_res invt p) \<noteq> None \<longrightarrow>
        fst (Add_res invt p) = Some (Reservation_exists (Get_id p)) \<and> snd (Add_res invt p) = invt)
   \<and> (fst (Add_res invt p) = None \<longrightarrow>
        cache (snd (Add_res invt p)) = (cache invt)(Get_id p \<mapsto> p))
   \<and> (keyed invt \<longrightarrow>
        (fst (Add_res invt p) \<noteq> None \<longleftrightarrow> (\<exists>k q. cache invt k = Some q \<and> Get_id q = Get_id p))
        \<and> keyed (snd (Add_res invt p))
        \<and> (\<forall>k1 k2 q1 q2.
              cache (snd (Add_res invt p)) k1 = Some q1 \<and> cache (snd (Add_res invt p)) k2 = Some q2
              \<and> Get_id q1 = Get_id q2 \<longrightarrow> k1 = k2 \<and> q1 = q2))"
proof -
  have e: "keyed invt \<Longrightarrow>
      (fst (Add_res invt p) \<noteq> None \<longleftrightarrow> (\<exists>k q. cache invt k = Some q \<and> Get_id q = Get_id p))"
    by (auto simp add: Add_res_def keyed_def split: option.splits)
  have k: "keyed invt \<Longrightarrow> keyed (snd (Add_res invt p))"
    by (auto simp add: Add_res_def keyed_def split: option.splits)
  have u: "keyed invt \<Longrightarrow> (\<forall>k1 k2 q1 q2.
              cache (snd (Add_res invt p)) k1 = Some q1 \<and> cache (snd (Add_res invt p)) k2 = Some q2
              \<and> Get_id q1 = Get_id q2 \<longrightarrow> k1 = k2 \<and> q1 = q2)"
    using k keyed_unique by blast
  have a: "(fst (Add_res invt p) \<noteq> None \<longleftrightarrow> cache invt (Get_id p) \<noteq> None)"
    by (simp add: Add_res_def split: option.splits)
  have b: "fst (Add_res invt p) \<noteq> None \<longrightarrow>
        fst (Add_res invt p) = Some (Reservation_exists (Get_id p)) \<and> snd (Add_res invt p) = invt"
    by (simp add: Add_res_def split: option.splits)
  have c: "fst (Add_res invt p) = None \<longrightarrow>
        cache (snd (Add_res invt p)) = (cache invt)(Get_id p \<mapsto> p)"
    by (simp add: Add_res_def split: option.splits)
  show ?thesis using a b c k u e by blast
qed

text \<open>
  C1. When \<open>Get_res\<close> finds the pledge and accepts the cookie, \<open>Del_res\<close> first
  sends the delete request with the pledge as the inventory holds it, then
  receives the network manager's reply, which it returns, and only then writes
  to the pledge: the events are the send, the reply and after them all the
  writes, which are the expiry set to \<open>now + 15\<close> followed by the pushed flag
  cleared. The inventory ends with the pledge so changed and is otherwise as
  before.
\<close>

theorem Del_res_releases_before_expiry_reset:
  assumes "fst (Get_res super_cookie invt nm cookie) = (Some p, st)"
  shows "\<exists>invt' tr p'.
       Del_res nw_del super_cookie now invt nm cookie = (nw_del p, invt', tr)
     \<and> cache invt nm = Some p
     \<and> tr = [Send_nw_del p, Recv_nw_reply (nw_del p)] @ filter is_write tr
     \<and> filter is_write tr = [Write_expiry nm (now + 15), Write_pushed nm False]
     \<and> cache invt' nm = Some p'
     \<and> p' = p\<lparr>window := (window p)\<lparr>expiry := now + 15\<rparr>, pushed := False\<rparr>
     \<and> (\<forall>k. k \<noteq> nm \<longrightarrow> cache invt' k = cache invt k)"
  using assms
  by (auto simp add: Del_res_def Get_res_def Let_def Set_expiry_def Reset_pushed_def
        set_expiry_to_def split: option.splits if_splits)

theorem Get_res_cookie_authority_witness:
  "Get_res ''root''
      \<lparr>cache = [''r1'' \<mapsto> \<lparr>pledge_id = ''r1'', usrkey = ''alice'',
          window = \<lparr>commence = 1010, expiry = 2000\<rparr>, pushed = True, paused = False,
          host1 = ''A'', host2 = ''B'', tpport1 = 0, tpport2 = 0, bandw_in = 50,
          bandw_out = 100, dscp = 0, path_list = []\<rparr>]\<rparr> ''r1'' ''bob''
    = ((None, Some (Not_authorised ''r1'')),
       \<lparr>cache = [''r1'' \<mapsto> \<lparr>pledge_id = ''r1'', usrkey = ''alice'',
          window = \<lparr>commence = 1010, expiry = 2000\<rparr>, pushed = True, paused = False,
          host1 = ''A'', host2 = ''B'', tpport1 = 0, tpport2 = 0, bandw_in = 50,
          bandw_out = 100, dscp = 0, path_list = []\<rparr>]\<rparr>)
   \<and> Get_res ''root''
      \<lparr>cache = [''r1'' \<mapsto> \<lparr>pledge_id = ''r1'', usrkey = ''alice'',
          window = \<lparr>commence = 1010, expiry = 2000\<rparr>, pushed = True, paused = False,
          host1 = ''A'', host2 = ''B'', tpport1 = 0, tpport2 = 0, bandw_in = 50,
          bandw_out = 100, dscp = 0, path_list = []\<rparr>]\<rparr> ''r1'' ''root''
    = ((Some \<lparr>pledge_id = ''r1'', usrkey = ''alice'',
          window = \<lparr>commence = 1010, expiry = 2000\<rparr>, pushed = True, paused = False,
          host1 = ''A'', host2 = ''B'', tpport1 = 0, tpport2 = 0, bandw_in = 50,
          bandw_out = 100, dscp = 0, path_list = []\<rparr>, None),
       \<lparr>cache = [''r1'' \<mapsto> \<lparr>pledge_id = ''r1'', usrkey = ''alice'',
          window = \<lparr>commence = 1010, expiry = 2000\<rparr>, pushed = True, paused = False,
          host1 = ''A'', host2 = ''B'', tpport1 = 0, tpport2 = 0, bandw_in = 50,
          bandw_out = 100, dscp = 0, path_list = []\<rparr>]\<rparr>)"
  using Get_res_cookie_authority [of
      "\<lparr>cache = [''r1'' \<mapsto> \<lparr>pledge_id = ''r1'', usrkey = ''alice'',
          window = \<lparr>commence = 1010, expiry = 2000\<rparr>, pushed = True, paused = False,
          host1 = ''A'', host2 = ''B'', tpport1 = 0, tpport2 = 0, bandw_in = 50,
          bandw_out = 100, dscp = 0, path_list = []\<rparr>]\<rparr>" "''r1''"
      "\<lparr>pledge_id = ''r1'', usrkey = ''alice'',
          window = \<lparr>commence = 1010, expiry = 2000\<rparr>, pushed = True, paused = False,
          host1 = ''A'', host2 = ''B'', tpport1 = 0, tpport2 = 0, bandw_in = 50,
          bandw_out = 100, dscp = 0, path_list = []\<rparr>" "''root''" "''bob''"]
    Get_res_cookie_authority [of
      "\<lparr>cache = [''r1'' \<mapsto> \<lparr>pledge_id = ''r1'', usrkey = ''alice'',
          window = \<lparr>commence = 1010, expiry = 2000\<rparr>, pushed = True, paused = False,
          host1 = ''A'', host2 = ''B'', tpport1 = 0, tpport2 = 0, bandw_in = 50,
          bandw_out = 100, dscp = 0, path_list = []\<rparr>]\<rparr>" "''r1''"
      "\<lparr>pledge_id = ''r1'', usrkey = ''alice'',
          window = \<lparr>commence = 1010, expiry = 2000\<rparr>, pushed = True, paused = False,
          host1 = ''A'', host2 = ''B'', tpport1 = 0, tpport2 = 0, bandw_in = 50,
          bandw_out = 100, dscp = 0, path_list = []\<rparr>" "''root''" "''root''"]
  by simp

theorem Add_res_rejects_duplicate_id_witness:
  "Add_res \<lparr>cache = [''r1'' \<mapsto> \<lparr>pledge_id = ''r1'', usrkey = ''alice'',
          window = \<lparr>commence = 1010, expiry = 2000\<rparr>, pushed = True, paused = False,
          host1 = ''A'', host2 = ''B'', tpport1 = 0, tpport2 = 0, bandw_in = 50,
          bandw_out = 100, dscp = 0, path_list = []\<rparr>]\<rparr>
      \<lparr>pledge_id = ''r1'', usrkey = ''alice'',
          window = \<lparr>commence = 1010, expiry = 2000\<rparr>, pushed = True, paused = False,
          host1 = ''A'', host2 = ''B'', tpport1 = 0, tpport2 = 0, bandw_in = 50,
          bandw_out = 100, dscp = 0, path_list = []\<rparr>
    = (Some (Reservation_exists ''r1''), \<lparr>cache = [''r1'' \<mapsto> \<lparr>pledge_id = ''r1'', usrkey = ''alice'',
          window = \<lparr>commence = 1010, expiry = 2000\<rparr>, pushed = True, paused = False,
          host1 = ''A'', host2 = ''B'', tpport1 = 0, tpport2 = 0, bandw_in = 50,
          bandw_out = 100, dscp = 0, path_list = []\<rparr>]\<rparr>)
   \<and> fst (Add_res Mk_inventory \<lparr>pledge_id = ''r1'', usrkey = ''alice'',
          window = \<lparr>commence = 1010, expiry = 2000\<rparr>, pushed = True, paused = False,
          host1 = ''A'', host2 = ''B'', tpport1 = 0, tpport2 = 0, bandw_in = 50,
          bandw_out = 100, dscp = 0, path_list = []\<rparr>) = None
   \<and> keyed (snd (Add_res Mk_inventory \<lparr>pledge_id = ''r1'', usrkey = ''alice'',
          window = \<lparr>commence = 1010, expiry = 2000\<rparr>, pushed = True, paused = False,
          host1 = ''A'', host2 = ''B'', tpport1 = 0, tpport2 = 0, bandw_in = 50,
          bandw_out = 100, dscp = 0, path_list = []\<rparr>))"
proof -
  let ?P = "\<lparr>pledge_id = ''r1'', usrkey = ''alice'',
          window = \<lparr>commence = 1010, expiry = 2000\<rparr>, pushed = True, paused = False,
          host1 = ''A'', host2 = ''B'', tpport1 = 0, tpport2 = 0, bandw_in = 50,
          bandw_out = 100, dscp = 0, path_list = []\<rparr>"
  let ?I = "\<lparr>cache = [''r1'' \<mapsto> \<lparr>pledge_id = ''r1'', usrkey = ''alice'',
          window = \<lparr>commence = 1010, expiry = 2000\<rparr>, pushed = True, paused = False,
          host1 = ''A'', host2 = ''B'', tpport1 = 0, tpport2 = 0, bandw_in = 50,
          bandw_out = 100, dscp = 0, path_list = []\<rparr>]\<rparr>"
  have a: "cache ?I (Get_id ?P) \<noteq> None" by (simp add: Get_id_def)
  have b: "\<not> cache Mk_inventory (Get_id ?P) \<noteq> None" by (simp add: Mk_inventory_def)
  from Add_res_rejects_duplicate_id [of ?I ?P] a
  have c: "fst (Add_res ?I ?P) = Some (Reservation_exists (Get_id ?P)) \<and> snd (Add_res ?I ?P) = ?I"
    by blast
  from Add_res_rejects_duplicate_id [of Mk_inventory ?P] b keyed_Mk_inventory
  have d: "fst (Add_res Mk_inventory ?P) = None \<and> keyed (snd (Add_res Mk_inventory ?P))"
    by blast
  from c have "Add_res ?I ?P = (Some (Reservation_exists (Get_id ?P)), ?I)"
    by (simp add: prod_eq_iff)
  then have "Add_res ?I ?P = (Some (Reservation_exists ''r1''), ?I)"
    by (simp add: Get_id_def)
  with d show ?thesis by blast
qed

theorem Del_res_releases_before_expiry_reset_witness:
  "fst (Get_res ''root'' \<lparr>cache = [''r1'' \<mapsto> \<lparr>pledge_id = ''r1'', usrkey = ''alice'',
          window = \<lparr>commence = 1010, expiry = 2000\<rparr>, pushed = True, paused = False,
          host1 = ''A'', host2 = ''B'', tpport1 = 0, tpport2 = 0, bandw_in = 50,
          bandw_out = 100, dscp = 0, path_list = []\<rparr>]\<rparr> ''r1'' ''alice'')
     = (Some \<lparr>pledge_id = ''r1'', usrkey = ''alice'',
          window = \<lparr>commence = 1010, expiry = 2000\<rparr>, pushed = True, paused = False,
          host1 = ''A'', host2 = ''B'', tpport1 = 0, tpport2 = 0, bandw_in = 50,
          bandw_out = 100, dscp = 0, path_list = []\<rparr>, None)
   \<and> fst (Del_res (\<lambda>p. None) ''root'' 1000 \<lparr>cache = [''r1'' \<mapsto> \<lparr>pledge_id = ''r1'', usrkey = ''alice'',
          window = \<lparr>commence = 1010, expiry = 2000\<rparr>, pushed = True, paused = False,
          host1 = ''A'', host2 = ''B'', tpport1 = 0, tpport2 = 0, bandw_in = 50,
          bandw_out = 100, dscp = 0, path_list = []\<rparr>]\<rparr> ''r1'' ''alice'') = None
   \<and> snd (snd (Del_res (\<lambda>p. None) ''root'' 1000 \<lparr>cache = [''r1'' \<mapsto> \<lparr>pledge_id = ''r1'', usrkey = ''alice'',
          window = \<lparr>commence = 1010, expiry = 2000\<rparr>, pushed = True, paused = False,
          host1 = ''A'', host2 = ''B'', tpport1 = 0, tpport2 = 0, bandw_in = 50,
          bandw_out = 100, dscp = 0, path_list = []\<rparr>]\<rparr> ''r1'' ''alice''))
     = [Send_nw_del \<lparr>pledge_id = ''r1'', usrkey = ''alice'',
          window = \<lparr>commence = 1010, expiry = 2000\<rparr>, pushed = True, paused = False,
          host1 = ''A'', host2 = ''B'', tpport1 = 0, tpport2 = 0, bandw_in = 50,
          bandw_out = 100, dscp = 0, path_list = []\<rparr>,
        Recv_nw_reply None, Write_expiry ''r1'' 1015, Write_pushed ''r1'' False]
   \<and> cache (fst (snd (Del_res (\<lambda>p. None) ''root'' 1000 \<lparr>cache = [''r1'' \<mapsto> \<lparr>pledge_id = ''r1'', usrkey = ''alice'',
          window = \<lparr>commence = 1010, expiry = 2000\<rparr>, pushed = True, paused = False,
          host1 = ''A'', host2 = ''B'', tpport1 = 0, tpport2 = 0, bandw_in = 50,
          bandw_out = 100, dscp = 0, path_list = []\<rparr>]\<rparr> ''r1'' ''alice''))) ''r1''
     = Some \<lparr>pledge_id = ''r1'', usrkey = ''alice'',
          window = \<lparr>commence = 1010, expiry = 1015\<rparr>, pushed = False, paused = False,
          host1 = ''A'', host2 = ''B'', tpport1 = 0, tpport2 = 0, bandw_in = 50,
          bandw_out = 100, dscp = 0, path_list = []\<rparr>"
proof -
  have h: "fst (Get_res ''root'' \<lparr>cache = [''r1'' \<mapsto> \<lparr>pledge_id = ''r1'', usrkey = ''alice'',
          window = \<lparr>commence = 1010, expiry = 2000\<rparr>, pushed = True, paused = False,
          host1 = ''A'', host2 = ''B'', tpport1 = 0, tpport2 = 0, bandw_in = 50,
          bandw_out = 100, dscp = 0, path_list = []\<rparr>]\<rparr> ''r1'' ''alice'')
     = (Some \<lparr>pledge_id = ''r1'', usrkey = ''alice'',
          window = \<lparr>commence = 1010, expiry = 2000\<rparr>, pushed = True, paused = False,
          host1 = ''A'', host2 = ''B'', tpport1 = 0, tpport2 = 0, bandw_in = 50,
          bandw_out = 100, dscp = 0, path_list = []\<rparr>, None)"
    by (simp add: Get_res_def Is_valid_cookie_def)
  from Del_res_releases_before_expiry_reset [OF h, of "\<lambda>p. None" 1000] h
  show ?thesis by auto
qed

subsection \<open>Pushing reservations: expiry and probe time\<close>























end
